theory Spec2Isabelle
  imports Complex_Main "HOL-Library.Product_Lexorder" "HOL-Library.Multiset"
begin

section \<open>Conventions\<close>

text \<open>
  The development embeds parts of \<^verbatim>\<open>ReEDS_Augur/stress_periods.py\<close>.
  A pandas DataFrame is a list of rows; a row is a record (or a tuple) of its columns.
  Floating-point numbers are modelled as real numbers: rounding, infinities and NaN cells
  of the data are outside the model. The one NaN the code produces by itself, the maximum
  of an empty column, is modelled as \<open>None\<close>.
  Every exception the embedded code can raise is a value of \<open>error\<close>.
\<close>

datatype error =
  ValueError
  | AssertionError
  | KeyError
  | UnboundLocalError
  | AttributeError
  | ExternalError

section \<open>Group-wise column operations\<close>

text \<open>
  The operations below work on a column of values paired with the group key of each row,
  in the row order of the frame, as \<^verbatim>\<open>df.groupby(key)[col]\<close> does.
\<close>

text \<open>\<^verbatim>\<open>groupby(key)[col].transform('sum')\<close>: every row gets the total of its group.\<close>

definition group_total :: "('g \<times> real) list \<Rightarrow> 'g \<Rightarrow> real" where
  "group_total kvs g = sum_list (map snd (filter (\<lambda>kv. fst kv = g) kvs))"

definition group_transform_sum :: "('g \<times> real) list \<Rightarrow> real list" where
  "group_transform_sum kvs = map (\<lambda>kv. group_total kvs (fst kv)) kvs"

text \<open>\<^verbatim>\<open>groupby(key)[col].transform('cumsum')\<close>: running total within the group,
  the row itself included. The first argument holds the totals so far.\<close>

fun group_cumsum :: "('g \<Rightarrow> real) \<Rightarrow> ('g \<times> real) list \<Rightarrow> real list" where
  "group_cumsum acc [] = []"
| "group_cumsum acc ((g, v) # kvs) =
     (acc g + v) # group_cumsum (acc(g := acc g + v)) kvs"

text \<open>\<^verbatim>\<open>groupby(key)[col].transform(lambda x: x.cumsum().shift(1, fill_value=0))\<close>:
  running total within the group, the row itself excluded.\<close>

fun group_cumsum_shift :: "('g \<Rightarrow> real) \<Rightarrow> ('g \<times> real) list \<Rightarrow> real list" where
  "group_cumsum_shift acc [] = []"
| "group_cumsum_shift acc ((g, v) # kvs) =
     acc g # group_cumsum_shift (acc(g := acc g + v)) kvs"

text \<open>\<^verbatim>\<open>groupby(key)[col].shift(1, fill_value=fill)\<close>: the value of the previous row
  of the same group, \<open>fill\<close> for the first row of a group. The first argument holds the
  last value seen in each group.\<close>

fun group_shift :: "('g \<rightharpoonup> real) \<Rightarrow> real \<Rightarrow> ('g \<times> real) list \<Rightarrow> real list" where
  "group_shift prev fill [] = []"
| "group_shift prev fill ((g, v) # kvs) =
     (case prev g of None \<Rightarrow> fill | Some p \<Rightarrow> p) # group_shift (prev(g \<mapsto> v)) fill kvs"

text \<open>\<^verbatim>\<open>groupby(key)[col].shift(-1, fill_value=fill)\<close>: the value of the next row of
  the same group, \<open>fill\<close> for the last row of a group.\<close>

fun group_shift_back :: "real \<Rightarrow> ('g \<times> real) list \<Rightarrow> real list" where
  "group_shift_back fill [] = []"
| "group_shift_back fill ((g, v) # kvs) =
     (case find (\<lambda>kv. fst kv = g) kvs of None \<Rightarrow> fill | Some kv \<Rightarrow> snd kv)
       # group_shift_back fill kvs"

text \<open>\<^verbatim>\<open>Series.max()\<close>: the maximum of a column; NaN (\<open>None\<close>) for an empty one.\<close>

fun series_max :: "real list \<Rightarrow> real option" where
  "series_max [] = None"
| "series_max (v # vs) = Some (fold max vs v)"

text \<open>\<^verbatim>\<open>sort_values(by, ascending=True)\<close> and \<^verbatim>\<open>sort_values(by, ascending=False)\<close>
  on several columns: pandas sorts lexicographically and keeps rows with equal keys in
  their previous order, in both directions.\<close>

definition sort_values :: "('a \<Rightarrow> 'k::linorder) \<Rightarrow> 'a list \<Rightarrow> 'a list" where
  "sort_values by rows = sort_key by rows"

definition sort_values_desc :: "('a \<Rightarrow> 'k::linorder) \<Rightarrow> 'a list \<Rightarrow> 'a list" where
  "sort_values_desc by rows = rev (sort_key by (rev rows))"

section \<open>\<^verbatim>\<open>update_prm\<close>: the piecewise-linear shortfall curves\<close>

text \<open>
  \<^verbatim>\<open>net_short\<close> as read from the PRAS shortfall-samples file: a dictionary from the sample
  number to a frame indexed by hour with one column per region \<open>r\<close>. A frame is the list
  of its rows, each an hour with the cells of that hour.
\<close>

type_synonym 'r sample_frame = "(nat \<times> ('r \<times> real) list) list"

text \<open>The long format after \<^verbatim>\<open>pd.concat\<close>, \<^verbatim>\<open>melt\<close> and \<^verbatim>\<open>reset_index\<close>:
  one row (sample, hour, r, net\_short\_mwh) per cell.\<close>

definition melt_net_short :: "(nat \<times> 'r sample_frame) list \<Rightarrow> (nat \<times> nat \<times> 'r \<times> real) list" where
  "melt_net_short net_short =
     concat (map (\<lambda>(k, df). concat (map (\<lambda>(h, cells). map (\<lambda>(g, v). (k, h, g, v)) cells) df))
       net_short)"

text \<open>\<^verbatim>\<open>net_short['net_short_mwh'].clip(lower=0)\<close>\<close>

definition clip_lower :: "real \<Rightarrow> real \<Rightarrow> real" where
  "clip_lower lo v = max lo v"

record 'r crit_row =
  r :: 'r
  sample :: nat
  net_short_mwh :: real

record 'r plf_row = "'r crit_row" +
  intercept :: real
  slope :: real
  x1 :: real
  x2 :: real
  Dy :: real
  y1 :: real
  y2 :: real

text \<open>\<^verbatim>\<open>net_short.groupby(['r','sample'], as_index=False)['net_short_mwh'].sum()\<close>
  after the clip: one row per (r, sample) present, in the order of the keys.\<close>

definition net_short_crit ::
  "(nat \<times> nat \<times> 'r::linorder \<times> real) list \<Rightarrow> 'r crit_row list" where
  "net_short_crit long =
     map (\<lambda>(g, k). \<lparr>r = g, sample = k,
            net_short_mwh = sum_list (map (\<lambda>(k', h, g', v). clip_lower 0 v)
              (filter (\<lambda>(k', h, g', v). g' = g \<and> k' = k) long))\<rparr>)
       (sort (remdups (map (\<lambda>(k, h, g, v). (g, k)) long)))"

text \<open>The group key and the sort key of a row of \<^verbatim>\<open>plfs\<close>.\<close>

definition by_r :: "('r, 'z) crit_row_scheme \<Rightarrow> ('r \<times> real)" where
  "by_r row = (r row, net_short_mwh row)"

text \<open>Line 353: \<^verbatim>\<open>plfs = net_short_crit.loc[net_short_crit.net_short_mwh > 0].copy()\<close>.
  A column that the code has not assigned yet holds 0.\<close>

definition plfs_positive :: "'r crit_row list \<Rightarrow> 'r plf_row list" where
  "plfs_positive crit =
     map (\<lambda>c. \<lparr>r = r c, sample = sample c, net_short_mwh = net_short_mwh c,
              intercept = 0, slope = 0, x1 = 0, x2 = 0, Dy = 0, y1 = 0, y2 = 0\<rparr>)
       (filter (\<lambda>c. 0 < net_short_mwh c) crit)"

text \<open>Line 355: the column \<^verbatim>\<open>intercept\<close>, the group total over the number of samples.\<close>

definition plfs_intercept :: "nat \<Rightarrow> 'r plf_row list \<Rightarrow> 'r plf_row list" where
  "plfs_intercept n_samples plfs =
     map2 (\<lambda>row v. row\<lparr>intercept := v / real n_samples\<rparr>) plfs
       (group_transform_sum (map by_r plfs))"

text \<open>Lines 359 and 360: the column \<^verbatim>\<open>slope\<close>, set to -1 and then to its running total
  within the region over the number of samples.\<close>

definition plfs_cumslope :: "nat \<Rightarrow> 'r plf_row list \<Rightarrow> 'r plf_row list" where
  "plfs_cumslope n_samples plfs0 =
    (let plfs = map (\<lambda>row. row\<lparr>slope := - 1\<rparr>) plfs0;
         plfs = map2 (\<lambda>row v. row\<lparr>slope := v / real n_samples\<rparr>) plfs
                  (group_cumsum (\<lambda>g. 0) (map (\<lambda>row. (r row, slope row)) plfs))
     in plfs)"

text \<open>Lines 353 to 362: the rows with positive shortfall and their \<^verbatim>\<open>intercept\<close>, the
  descending order in which \<^verbatim>\<open>slope\<close> is computed, and the final ascending order.\<close>

definition plfs_slope :: "nat \<Rightarrow> ('r::linorder) crit_row list \<Rightarrow> 'r plf_row list" where
  "plfs_slope n_samples crit =
    (let plfs = plfs_positive crit;
         plfs = plfs_intercept n_samples plfs;
         plfs = sort_values_desc by_r plfs;
         plfs = plfs_cumslope n_samples plfs;
         plfs = sort_values by_r plfs
     in plfs)"

text \<open>Lines 363 to 368: the columns \<^verbatim>\<open>x1\<close>, \<^verbatim>\<open>x2\<close> and \<^verbatim>\<open>Dy\<close>.\<close>

definition plfs_Dy :: "('r::linorder) plf_row list \<Rightarrow> 'r plf_row list" where
  "plfs_Dy plfs0 =
    (let plfs = map2 (\<lambda>row v. row\<lparr>x1 := v\<rparr>) plfs0 (group_shift Map.empty 0 (map by_r plfs0));
         plfs = map (\<lambda>row. row\<lparr>x2 := net_short_mwh row\<rparr>) plfs;
         plfs = map (\<lambda>row. row\<lparr>Dy := slope row * (x2 row - x1 row)\<rparr>) plfs
     in plfs)"

text \<open>Line 370: \<^verbatim>\<open>assert plfs['Dy'].max() <= 0\<close>. The maximum of an empty column is NaN,
  and the comparison of NaN with 0 is false.\<close>

definition Dy_check :: "'r plf_row list \<Rightarrow> bool" where
  "Dy_check plfs = (case series_max (map Dy plfs) of None \<Rightarrow> False | Some m \<Rightarrow> m \<le> 0)"

text \<open>Lines 372 to 375: the columns \<^verbatim>\<open>y1\<close> and \<^verbatim>\<open>y2\<close>.\<close>

definition plfs_y :: "('r::linorder) plf_row list \<Rightarrow> 'r plf_row list" where
  "plfs_y plfs0 =
    (let plfs = map2 (\<lambda>row v. row\<lparr>y1 := intercept row + v\<rparr>) plfs0
                  (group_cumsum_shift (\<lambda>g. 0) (map (\<lambda>row. (r row, Dy row)) plfs0));
         plfs = map2 (\<lambda>row v. row\<lparr>y2 := v\<rparr>) plfs
                  (group_shift_back 0 (map (\<lambda>row. (r row, y1 row)) plfs))
     in plfs)"

text \<open>Lines 294 to 375 of \<^verbatim>\<open>update_prm\<close>, from the samples read to the finished curves.
  \<^verbatim>\<open>pd.concat\<close> raises ValueError when the dictionary of samples is empty.\<close>

definition update_prm_plfs :: "(nat \<times> ('r::linorder) sample_frame) list \<Rightarrow> error + 'r plf_row list" where
  "update_prm_plfs net_short =
    (let n_samples = length net_short in
     if net_short = [] then Inl ValueError
     else
       let plfs = plfs_Dy (plfs_slope n_samples (net_short_crit (melt_net_short net_short))) in
       if \<not> Dy_check plfs then Inl AssertionError
       else Inr (plfs_y plfs))"

section \<open>\<^verbatim>\<open>get_stress_periods\<close>: the stress metric by period\<close>

text \<open>
  A frame with labelled columns is the list of its rows, each the index label of the row
  with the labelled cells of that row. A cell that pandas would hold as NaN or as an
  infinity is \<open>None\<close>: the model says that such a cell is not a finite number and nothing
  more about it.
\<close>

type_synonym ('i, 'c, 'v) frame = "('i \<times> ('c \<times> 'v) list) list"

text \<open>The cell of a frame at an index label and a column label.\<close>

definition frame_cell :: "('i, 'c, 'v) frame \<Rightarrow> 'i \<Rightarrow> 'c \<Rightarrow> 'v option" where
  "frame_cell df i c = (case map_of df i of None \<Rightarrow> None | Some cells \<Rightarrow> map_of cells c)"

text \<open>\<^verbatim>\<open>df.rename(columns=rmap)\<close> with a Series \<^verbatim>\<open>rmap\<close>: a label that \<^verbatim>\<open>rmap\<close> does not
  hold is kept.\<close>

definition rename_label :: "('c \<rightharpoonup> 'c) \<Rightarrow> 'c \<Rightarrow> 'c" where
  "rename_label rmap c = (case rmap c of None \<Rightarrow> c | Some g \<Rightarrow> g)"

definition rename_columns :: "('c \<rightharpoonup> 'c) \<Rightarrow> ('i, 'c, 'v) frame \<Rightarrow> ('i, 'c, 'v) frame" where
  "rename_columns rmap df =
     map (\<lambda>(i, cells). (i, map (\<lambda>(c, v). (rename_label rmap c, v)) cells)) df"

text \<open>The cells of a row under the columns that carry one label.\<close>

definition column_cells :: "'c \<Rightarrow> ('c \<times> 'v) list \<Rightarrow> 'v list" where
  "column_cells g cells = map snd (filter (\<lambda>cv. fst cv = g) cells)"

text \<open>\<^verbatim>\<open>df.groupby(axis=1, level=0).sum()\<close>: one column per distinct label, in the order
  of the labels, holding the sum of the columns that carry the label.\<close>

definition groupby_columns_sum :: "('i, 'c::linorder, real) frame \<Rightarrow> ('i, 'c, real) frame" where
  "groupby_columns_sum df =
     map (\<lambda>(i, cells). (i, map (\<lambda>g. (g, sum_list (column_cells g cells)))
                            (sort (remdups (map fst cells))))) df"

text \<open>\<^verbatim>\<open>df.groupby(key of the index).agg(f)\<close>: one row per distinct key, in the order of the
  keys, each cell the aggregate of its column over the rows of the group.\<close>

definition groupby_index_agg ::
  "('i \<Rightarrow> 'd::linorder) \<Rightarrow> ('v list \<Rightarrow> 'w) \<Rightarrow> ('i, 'c, 'v) frame \<Rightarrow> ('d, 'c, 'w) frame" where
  "groupby_index_agg key agg df =
     map (\<lambda>d. let grp = filter (\<lambda>row. key (fst row) = d) df
              in (d, map (\<lambda>g. (g, agg (concat (map (\<lambda>row. column_cells g (snd row)) grp))))
                       (case grp of [] \<Rightarrow> [] | row # _ \<Rightarrow> map fst (snd row))))
       (sort (remdups (map (\<lambda>row. key (fst row)) df)))"

text \<open>\<^verbatim>\<open>df.index = new_index\<close>: the rows keep their position and take the new labels;
  pandas raises ValueError when the lengths differ.\<close>

definition set_index :: "'i list \<Rightarrow> ('j, 'c, 'v) frame \<Rightarrow> error + ('i, 'c, 'v) frame" where
  "set_index new_index df =
     (if length new_index \<noteq> length df then Inl ValueError
      else Inr (map2 (\<lambda>i row. (i, snd row)) new_index df))"

text \<open>Division of two cells. With a zero divisor the floating-point result is an infinity
  or NaN.\<close>

definition float_div :: "real \<Rightarrow> real \<Rightarrow> real option" where
  "float_div a b = (if b = 0 then None else Some (a / b))"

text \<open>\<^verbatim>\<open>A / B\<close> for two frames with the same index: the rows are divided in their order,
  the columns are aligned by label. Unequal column lists give the sorted union of the
  labels, and a cell that is missing on one side gives NaN.\<close>

definition frame_div ::
  "('i, 'c::linorder, real) frame \<Rightarrow> ('i, 'c, real) frame \<Rightarrow> ('i, 'c, real option) frame" where
  "frame_div A B =
     map2 (\<lambda>rowa rowb.
        (fst rowa,
         let ca = map fst (snd rowa); cb = map fst (snd rowb);
             cols = (if ca = cb then ca else sort (remdups (ca @ cb)))
         in map (\<lambda>c. (c, case (map_of (snd rowa) c, map_of (snd rowb) c) of
                            (Some a, Some b) \<Rightarrow> float_div a b
                          | _ \<Rightarrow> None)) cols)) A B"

text \<open>\<^verbatim>\<open>df * k\<close>\<close>

definition frame_scale :: "real \<Rightarrow> ('i, 'c, real option) frame \<Rightarrow> ('i, 'c, real option) frame" where
  "frame_scale k df = map (\<lambda>(i, cells). (i, map (\<lambda>(c, v). (c, map_option (\<lambda>a. a * k) v)) cells)) df"

text \<open>The aggregate \<^verbatim>\<open>'max'\<close> over cells that may be NaN or infinite: the model gives a
  finite maximum when every cell is finite.\<close>

definition agg_max :: "real option list \<Rightarrow> real option" where
  "agg_max vs = (case those vs of None \<Rightarrow> None | Some ws \<Rightarrow> series_max ws)"

text \<open>A time stamp of the hourly index: year, month, day, hour of the day; and the key
  \<^verbatim>\<open>[index.year, index.month, index.day]\<close> of the grouping by period.\<close>

type_synonym timestamp = "nat \<times> nat \<times> nat \<times> nat"

fun ymd :: "timestamp \<Rightarrow> nat \<times> nat \<times> nat" where
  "ymd (y, m, d, h) = (y, m, d)"

text \<open>\<^verbatim>\<open>str.upper()\<close> on ASCII letters.\<close>

fun upper_char :: "char \<Rightarrow> char" where
  "upper_char (Char b0 b1 b2 b3 b4 b5 b6 b7) =
     (let n = (of_char (Char b0 b1 b2 b3 b4 b5 b6 b7) :: nat)
      in if 97 \<le> n \<and> n \<le> 122 then Char b0 b1 b2 b3 b4 False b6 b7
         else Char b0 b1 b2 b3 b4 b5 b6 b7)"

definition upper :: "string \<Rightarrow> string" where
  "upper s = map upper_char s"

text \<open>
  Lines 126 to 174 of \<^verbatim>\<open>get_stress_periods\<close>: the frame \<^verbatim>\<open>dfmetric_period\<close>.
  \<^verbatim>\<open>rmap\<close> is the region aggregator of \<^verbatim>\<open>get_rmap\<close>, \<^verbatim>\<open>pras_eue\<close> the frame of
  \<^verbatim>\<open>get_pras_eue\<close> and \<^verbatim>\<open>pras_load\<close> the frame read from \<^verbatim>\<open>pras_load_{t}.h5\<close>.
  A stress metric other than EUE and NEUE, and under NEUE an aggregation other than
  \<^verbatim>\<open>'sum'\<close> and \<^verbatim>\<open>'max'\<close>, leaves \<^verbatim>\<open>dfmetric_period\<close> unassigned and line 178 raises
  UnboundLocalError. Under EUE the aggregations of pandas other than \<^verbatim>\<open>'sum'\<close> and
  \<^verbatim>\<open>'max'\<close> are not modelled.
\<close>

definition dfmetric_period ::
  "('r \<rightharpoonup> 'r) \<Rightarrow> (timestamp, 'r::linorder, real) frame \<Rightarrow> ('j, 'r, real) frame
     \<Rightarrow> string \<Rightarrow> string \<Rightarrow> error + (nat \<times> nat \<times> nat, 'r, real option) frame" where
  "dfmetric_period rmap pras_eue pras_load stress_metric period_agg_method =
    (let dfeue = groupby_columns_sum (rename_columns rmap pras_eue) in
     if upper stress_metric = ''EUE'' then
       (if period_agg_method = ''sum'' then
          Inr (groupby_index_agg ymd (\<lambda>vs. Some (sum_list vs)) dfeue)
        else if period_agg_method = ''max'' then
          Inr (groupby_index_agg ymd series_max dfeue)
        else Inl ExternalError)
     else if upper stress_metric = ''NEUE'' then
       (case set_index (map fst dfeue) (groupby_columns_sum (rename_columns rmap pras_load)) of
          Inl e \<Rightarrow> Inl e
        | Inr dfload \<Rightarrow>
            if period_agg_method = ''sum'' then
              Inr (frame_scale 1000000
                     (frame_div (groupby_index_agg ymd sum_list dfeue)
                                (groupby_index_agg ymd sum_list dfload)))
            else if period_agg_method = ''max'' then
              Inr (frame_scale 1000000
                     (groupby_index_agg ymd agg_max (frame_div dfeue dfload)))
            else Inl UnboundLocalError)
     else Inl UnboundLocalError)"

text \<open>
  The two formulas of the specification for NEUE, written from its words. The unserved
  energy and the load of an aggregate region in one hour are the sums over the base regions
  that the aggregator maps to it; the hours of the load frame are those of the
  unserved-energy frame, in their order.
\<close>

definition agg_region :: "('r \<rightharpoonup> 'r) \<Rightarrow> ('r \<times> real) list \<Rightarrow> 'r \<Rightarrow> real" where
  "agg_region rmap cells g =
     sum_list (map snd (filter (\<lambda>cv. rename_label rmap (fst cv) = g) cells))"

definition day_hours ::
  "(timestamp, 'r, real) frame \<Rightarrow> ('j, 'r, real) frame \<Rightarrow> nat \<times> nat \<times> nat
     \<Rightarrow> (('r \<times> real) list \<times> ('r \<times> real) list) list" where
  "day_hours pras_eue pras_load d =
     map (\<lambda>(rowe, rowl). (snd rowe, snd rowl))
       (filter (\<lambda>(rowe, rowl). ymd (fst rowe) = d) (zip pras_eue pras_load))"

definition NEUE_sum_spec ::
  "('r \<rightharpoonup> 'r) \<Rightarrow> (timestamp, 'r, real) frame \<Rightarrow> ('j, 'r, real) frame
     \<Rightarrow> nat \<times> nat \<times> nat \<Rightarrow> 'r \<Rightarrow> real" where
  "NEUE_sum_spec rmap pras_eue pras_load d g =
     (\<Sum>(eue, load)\<leftarrow>day_hours pras_eue pras_load d. agg_region rmap eue g)
       / (\<Sum>(eue, load)\<leftarrow>day_hours pras_eue pras_load d. agg_region rmap load g) * 1000000"

definition NEUE_max_spec ::
  "('r \<rightharpoonup> 'r) \<Rightarrow> (timestamp, 'r, real) frame \<Rightarrow> ('j, 'r, real) frame
     \<Rightarrow> nat \<times> nat \<times> nat \<Rightarrow> 'r \<Rightarrow> real" where
  "NEUE_max_spec rmap pras_eue pras_load d g =
     Max (set (map (\<lambda>(eue, load). agg_region rmap eue g / agg_region rmap load g)
                (day_hours pras_eue pras_load d))) * 1000000"

text \<open>Every row of a frame has the columns \<open>cols\<close>, in this order.\<close>

definition frame_columns :: "('i, 'c, 'v) frame \<Rightarrow> 'c list \<Rightarrow> bool" where
  "frame_columns df cols = (\<forall>row\<in>set df. map fst (snd row) = cols)"

text \<open>
  A data set of two base regions, 1 and 2, that aggregate to the region 5, over two days of
  two hours each. On the first day the unserved energy peaks in the first hour and the load
  in the second.
\<close>

definition example_rmap :: "nat \<rightharpoonup> nat" where
  "example_rmap = [1 \<mapsto> 5, 2 \<mapsto> 5]"

definition example_eue :: "(timestamp, nat, real) frame" where
  "example_eue =
     [((2012, 1, 1, 0), [(1, 10), (2, 0)]), ((2012, 1, 1, 1), [(1, 0), (2, 0)]),
      ((2012, 1, 2, 0), [(1, 1), (2, 2)]), ((2012, 1, 2, 1), [(1, 3), (2, 4)])]"

definition example_load :: "(nat, nat, real) frame" where
  "example_load =
     [(0, [(1, 100), (2, 100)]), (1, [(1, 700), (2, 100)]),
      (2, [(1, 100), (2, 100)]), (3, [(1, 50), (2, 50)])]"

section \<open>\<^verbatim>\<open>main\<close>: the stress-period selection criteria\<close>

subsection \<open>Strings and dictionaries\<close>

text \<open>\<^verbatim>\<open>str.split(sep)\<close> with a separator of one character: the empty string gives one
  empty part.\<close>

fun split_on :: "char \<Rightarrow> string \<Rightarrow> string list" where
  "split_on sep [] = [[]]"
| "split_on sep (ch # s) =
     (if ch = sep then [] # split_on sep s
      else (case split_on sep s of [] \<Rightarrow> [[ch]] | w # ws \<Rightarrow> (ch # w) # ws))"

text \<open>\<^verbatim>\<open>str.lower()\<close> on ASCII letters.\<close>

fun lower_char :: "char \<Rightarrow> char" where
  "lower_char (Char b0 b1 b2 b3 b4 b5 b6 b7) =
     (let n = (of_char (Char b0 b1 b2 b3 b4 b5 b6 b7) :: nat)
      in if 65 \<le> n \<and> n \<le> 90 then Char b0 b1 b2 b3 b4 True b6 b7
         else Char b0 b1 b2 b3 b4 b5 b6 b7)"

definition lower :: "string \<Rightarrow> string" where
  "lower s = map lower_char s"

text \<open>\<^verbatim>\<open>d[k] = v\<close> on a dictionary, which keeps the order in which its keys were first
  set.\<close>

fun dict_set :: "('k \<times> 'v) list \<Rightarrow> 'k \<Rightarrow> 'v \<Rightarrow> ('k \<times> 'v) list" where
  "dict_set [] k v = [(k, v)]"
| "dict_set (kv # kvs) k v = (if fst kv = k then (k, v) # kvs else kv # dict_set kvs k v)"

text \<open>\<^verbatim>\<open>drop_duplicates(subset=key, keep='first')\<close>; the first argument holds the keys
  seen so far.\<close>

fun drop_duplicates :: "'k list \<Rightarrow> ('a \<Rightarrow> 'k) \<Rightarrow> 'a list \<Rightarrow> 'a list" where
  "drop_duplicates seen key [] = []"
| "drop_duplicates seen key (row # rows) =
     (if key row \<in> set seen then drop_duplicates seen key rows
      else row # drop_duplicates (key row # seen) key rows)"

text \<open>\<^verbatim>\<open>groupby(key).head(n)\<close>: for \<open>n \<ge> 0\<close> the first \<open>n\<close> rows of every group, for
  \<open>n < 0\<close> all rows of a group but its last \<open>-n\<close>, in the order of the frame. The first
  argument counts the rows of each group seen so far.\<close>

fun group_head :: "('g \<Rightarrow> nat) \<Rightarrow> int \<Rightarrow> ('a \<Rightarrow> 'g) \<Rightarrow> 'a list \<Rightarrow> 'a list" where
  "group_head seen n key [] = []"
| "group_head seen n key (row # rows) =
     (let keep = (if 0 \<le> n then int (seen (key row)) < n
                  else - n \<le> int (length (filter (\<lambda>row'. key row' = key row) rows)))
      in (if keep then [row] else [])
           @ group_head (seen(key row := Suc (seen (key row)))) n key rows)"

subsection \<open>The data of one call\<close>

text \<open>A row of the table that \<^verbatim>\<open>get_stress_periods\<close> returns: the period, its date, the
  region with the largest metric on that date, and the metric (the column named after the
  stress metric).\<close>

record period_row =
  actual_period :: string
  period_y :: nat
  period_m :: nat
  period_d :: nat
  period_r :: string
  period_metric :: real

text \<open>A row of \<^verbatim>\<open>new_stress_periods\<close>: the key (criterion, period type) of the dictionary
  entry it comes from, and the period with its date and region.\<close>

record new_period =
  np_criterion :: string
  np_periodtype :: string
  np_actual_period :: string
  np_y :: nat
  np_m :: nat
  np_d :: nat
  np_r :: string

text \<open>The switches of the run that the selection reads; \<^verbatim>\<open>GSw_PRM_StressIncrement\<close>,
  \<^verbatim>\<open>GSw_PRM_CapCredit\<close> and \<^verbatim>\<open>GSw_StartMarkets\<close> are given after \<^verbatim>\<open>int()\<close>.\<close>

record switches =
  GSw_PRM_StressThreshold :: string
  GSw_PRM_StressIncrement :: int
  GSw_PRM_StressStorageCutoff :: string
  GSw_HourlyType :: string
  GSw_PRM_CapCredit :: int
  GSw_StartMarkets :: int

text \<open>
  What \<^verbatim>\<open>main\<close> reads and what its collaborators return:
  the result of \<^verbatim>\<open>get_annual_neue\<close> (an exception, or for a hierarchy level and an
  aggregation the NEUE of each region, \<open>None\<close> for a key that the table does not have);
  the table of \<^verbatim>\<open>get_stress_periods\<close> for a hierarchy level, a stress metric and an
  aggregation; Python's \<^verbatim>\<open>float()\<close>; the periods of \<^verbatim>\<open>period_szn.csv\<close>; whether the storage
  energy frame is empty; the regions of a hierarchy level with storage, or the exception of
  the aggregation of the storage energy to that level (lines 532 to 537); for a level and a
  selected row the headspace of the storage at the start and at the end of its day, in MWh
  and as a fraction; and the periods before and after the day of a row.
\<close>

record environment =
  annual_neue :: "error + (string \<Rightarrow> string \<Rightarrow> (string \<times> real) list option)"
  stress_periods :: "string \<Rightarrow> string \<Rightarrow> string \<Rightarrow> error + period_row list"
  float_of :: "string \<Rightarrow> real option"
  stressperiods_this_iteration :: "string list"
  dfenergy_r_empty :: bool
  storage_regions :: "string \<Rightarrow> error + string list"
  headspace :: "string \<Rightarrow> period_row \<Rightarrow> error + (real \<times> real \<times> real \<times> real)"
  day_before :: "period_row \<Rightarrow> string \<times> nat \<times> nat \<times> nat"
  day_after :: "period_row \<Rightarrow> string \<times> nat \<times> nat \<times> nat"

text \<open>What \<^verbatim>\<open>main\<close> prints.\<close>

datatype message =
  Criterion_failed string "(string \<times> real) list"
  | Criterion_passed string
  | Added_stress_period string string real
  | Not_adding_shoulder
  | No_storage
  | Added_shoulder_after string
  | Added_shoulder_before string

text \<open>The dictionaries that the loop over the criteria fills, and the output so far.\<close>

record selection =
  eue_sorted_periods :: "(string \<times> period_row list) list"
  failed :: "(string \<times> (string \<times> real) list) list"
  high_eue_periods :: "((string \<times> string) \<times> period_row list) list"
  shoulder_periods :: "((string \<times> string) \<times> new_period list) list"
  printed :: "message list"

definition no_selection :: selection where
  "no_selection = \<lparr>eue_sorted_periods = [], failed = [], high_eue_periods = [],
                    shoulder_periods = [], printed = []\<rparr>"

subsection \<open>The loop over the criteria\<close>

text \<open>Line 466: \<^verbatim>\<open>(hierarchy_level, ppm, stress_metric, period_agg_method) =
  criterion.split('_')\<close>; the unpacking raises ValueError unless there are four parts.\<close>

definition parse_criterion :: "string \<Rightarrow> error + (string \<times> string \<times> string \<times> string)" where
  "parse_criterion criterion =
     (case split_on CHR ''_'' criterion of
        [hierarchy_level, ppm, stress_metric, period_agg_method] \<Rightarrow>
          Inr (hierarchy_level, ppm, stress_metric, period_agg_method)
      | _ \<Rightarrow> Inl ValueError)"

text \<open>Lines 490 to 504: the new stress periods of a failed criterion.\<close>

definition select_high_eue ::
  "environment \<Rightarrow> switches \<Rightarrow> period_row list \<Rightarrow> string list \<Rightarrow> period_row list" where
  "select_high_eue env sw sorted_periods failed_regions =
     group_head (\<lambda>g. 0) (GSw_PRM_StressIncrement sw) period_r
       (drop_duplicates [] (\<lambda>row. (period_y row, period_m row, period_d row))
         (filter (\<lambda>row. period_r row \<in> set failed_regions
                      \<and> actual_period row \<notin> set (stressperiods_this_iteration env))
            sorted_periods))"

text \<open>Lines 559 to 563 and 570 to 574: the test for a shoulder period. Python evaluates
  \<^verbatim>\<open>float(cutoff)\<close> only in the disjunct that needs it.\<close>

definition shoulder_test ::
  "environment \<Rightarrow> string \<Rightarrow> string \<Rightarrow> real \<Rightarrow> real \<Rightarrow> real \<Rightarrow> error + bool" where
  "shoulder_test env cutofftype cutoff headspace_MWh day_eue headspace_frac =
     (if cutofftype = ''eue'' then
        (case float_of env cutoff of
           None \<Rightarrow> Inl ValueError
         | Some c \<Rightarrow> Inr (c \<le> headspace_MWh / day_eue
                          \<or> take 3 cutofftype = ''cap'' \<and> c \<le> headspace_frac
                          \<or> take 3 cutofftype = ''abs''))
      else if take 3 cutofftype = ''cap'' then
        (case float_of env cutoff of
           None \<Rightarrow> Inl ValueError
         | Some c \<Rightarrow> Inr (c \<le> headspace_frac \<or> take 3 cutofftype = ''abs''))
      else Inr (take 3 cutofftype = ''abs''))"

definition shoulder_row :: "string \<Rightarrow> string \<Rightarrow> string \<times> nat \<times> nat \<times> nat \<Rightarrow> string \<Rightarrow> new_period" where
  "shoulder_row criterion periodtype day region =
     (case day of (p, y, m, d) \<Rightarrow>
        \<lparr>np_criterion = criterion, np_periodtype = periodtype, np_actual_period = p,
         np_y = y, np_m = m, np_d = d, np_r = region\<rparr>)"

text \<open>Lines 540 to 579: the body of the loop over the selected rows, given the regions
  with storage. A region without storage is skipped; \<^verbatim>\<open>row.EUE\<close> raises AttributeError when the metric column has
  another name.\<close>

definition add_shoulder ::
  "environment \<Rightarrow> string \<Rightarrow> string \<Rightarrow> string \<Rightarrow> string \<Rightarrow> string
     \<Rightarrow> string list \<Rightarrow> period_row \<Rightarrow> selection \<Rightarrow> error + selection" where
  "add_shoulder env criterion hierarchy_level stress_metric cutofftype cutoff regions row s =
     (if period_r row \<notin> set regions then Inr s
      else
        (case headspace env hierarchy_level row of
           Inl e \<Rightarrow> Inl e
         | Inr (start_headspace_MWh, end_headspace_MWh, start_headspace_frac, end_headspace_frac) \<Rightarrow>
             if stress_metric \<noteq> ''EUE'' then Inl AttributeError
             else
               let day_eue = period_metric row in
               (case shoulder_test env cutofftype cutoff end_headspace_MWh day_eue end_headspace_frac of
                  Inl e \<Rightarrow> Inl e
                | Inr add_after \<Rightarrow>
                    let s = (if add_after then
                               s\<lparr>shoulder_periods :=
                                   dict_set (shoulder_periods s)
                                     (criterion, ''after_'' @ actual_period row)
                                     [shoulder_row criterion (''after_'' @ actual_period row)
                                        (day_after env row) (period_r row)],
                                 printed := printed s @ [Added_shoulder_after (actual_period row)]\<rparr>
                             else s) in
                    (case shoulder_test env cutofftype cutoff start_headspace_MWh day_eue start_headspace_frac of
                       Inl e \<Rightarrow> Inl e
                     | Inr add_before \<Rightarrow>
                         Inr (if add_before then
                                s\<lparr>shoulder_periods :=
                                    dict_set (shoulder_periods s)
                                      (criterion, ''before_'' @ actual_period row)
                                      [shoulder_row criterion (''before_'' @ actual_period row)
                                         (day_before env row) (period_r row)],
                                  printed := printed s @ [Added_shoulder_before (actual_period row)]\<rparr>
                              else s)))))"

text \<open>Lines 539 to 579: the loop over the selected rows.\<close>

fun add_shoulders ::
  "environment \<Rightarrow> string \<Rightarrow> string \<Rightarrow> string \<Rightarrow> string \<Rightarrow> string
     \<Rightarrow> string list \<Rightarrow> period_row list \<Rightarrow> selection \<Rightarrow> error + selection" where
  "add_shoulders env criterion hierarchy_level stress_metric cutofftype cutoff regions [] s = Inr s"
| "add_shoulders env criterion hierarchy_level stress_metric cutofftype cutoff regions (row # rows) s =
     (case add_shoulder env criterion hierarchy_level stress_metric cutofftype cutoff regions row s of
        Inl e \<Rightarrow> Inl e
      | Inr s' \<Rightarrow>
          add_shoulders env criterion hierarchy_level stress_metric cutofftype cutoff regions
            rows s')"

text \<open>Lines 486 to 582: the branch of a failed criterion, up to its \<^verbatim>\<open>break\<close>.\<close>

definition criterion_failed ::
  "environment \<Rightarrow> switches \<Rightarrow> string \<Rightarrow> string \<Rightarrow> string \<Rightarrow> (string \<times> real) list \<Rightarrow> real
     \<Rightarrow> period_row list \<Rightarrow> selection \<Rightarrow> error + selection" where
  "criterion_failed env sw criterion hierarchy_level stress_metric this_test threshold sorted_periods s0 =
    (let failed_c = filter (\<lambda>(g, v). threshold < v) this_test;
         high = select_high_eue env sw sorted_periods (map fst failed_c);
         s = s0\<lparr>failed := dict_set (failed s0) criterion failed_c,
                high_eue_periods :=
                  dict_set (high_eue_periods s0) (criterion, ''high_'' @ stress_metric) high,
                printed := printed s0 @ [Criterion_failed criterion failed_c]
                  @ map (\<lambda>row. Added_stress_period (actual_period row) (period_r row)
                                  (period_metric row)) high\<rparr>
     in if lower (GSw_PRM_StressStorageCutoff sw) \<in> set [''off'', ''0'', ''false''] then
          Inr (s\<lparr>printed := printed s @ [Not_adding_shoulder]\<rparr>)
        else if dfenergy_r_empty env then
          Inr (s\<lparr>printed := printed s @ [No_storage]\<rparr>)
        else
          (case split_on CHR ''_'' (lower (GSw_PRM_StressStorageCutoff sw)) of
             [cutofftype, cutoff] \<Rightarrow>
               if GSw_HourlyType sw \<notin> set [''day'', ''wek'', ''year''] then Inl KeyError
               else
                 (case storage_regions env hierarchy_level of
                    Inl e \<Rightarrow> Inl e
                  | Inr regions \<Rightarrow>
                      add_shoulders env criterion hierarchy_level stress_metric cutofftype cutoff
                        regions high s)
           | _ \<Rightarrow> Inl ValueError))"

text \<open>
  Lines 464 to 585: the loop over the criteria. A criterion that passes goes on to the next
  one; every path through the branch of a failed criterion ends in a \<^verbatim>\<open>break\<close>, so the
  rest of the list is left alone. Line 478 sorts on one column, where pandas does not fix
  the order of rows with equal values; the model keeps their order.
\<close>

fun criteria_loop ::
  "environment \<Rightarrow> switches \<Rightarrow> (string \<Rightarrow> string \<Rightarrow> (string \<times> real) list option)
     \<Rightarrow> string list \<Rightarrow> selection \<Rightarrow> error + selection" where
  "criteria_loop env sw neue [] s = Inr s"
| "criteria_loop env sw neue (criterion # rest) s =
     (case parse_criterion criterion of
        Inl e \<Rightarrow> Inl e
      | Inr (hierarchy_level, ppm, stress_metric, period_agg_method) \<Rightarrow>
          (case stress_periods env hierarchy_level stress_metric period_agg_method of
             Inl e \<Rightarrow> Inl e
           | Inr eue_periods \<Rightarrow>
               let sorted_periods = sort_values_desc period_metric eue_periods;
                   s = s\<lparr>eue_sorted_periods :=
                           dict_set (eue_sorted_periods s) criterion sorted_periods\<rparr>
               in (case neue hierarchy_level period_agg_method of
                     None \<Rightarrow> Inl KeyError
                   | Some this_test \<Rightarrow>
                       (case float_of env ppm of
                          None \<Rightarrow> Inl ValueError
                        | Some threshold \<Rightarrow>
                            if list_ex (\<lambda>(g, v). threshold < v) this_test then
                              criterion_failed env sw criterion hierarchy_level stress_metric
                                this_test threshold sorted_periods s
                            else
                              criteria_loop env sw neue rest
                                (s\<lparr>printed := printed s @ [Criterion_passed criterion]\<rparr>)))))"

text \<open>The truth value of an integer in a condition.\<close>

definition truthy :: "int \<Rightarrow> bool" where
  "truthy n = (n \<noteq> 0)"

text \<open>Lines 590 to 592: \<^verbatim>\<open>new_stress_periods\<close>, the rows of the two dictionaries with
  their keys, one row per period.\<close>

definition high_rows :: "((string \<times> string) \<times> period_row list) \<Rightarrow> new_period list" where
  "high_rows entry =
     map (\<lambda>row. \<lparr>np_criterion = fst (fst entry), np_periodtype = snd (fst entry),
                 np_actual_period = actual_period row, np_y = period_y row,
                 np_m = period_m row, np_d = period_d row, np_r = period_r row\<rparr>)
       (snd entry)"

definition new_stress_periods :: "selection \<Rightarrow> new_period list" where
  "new_stress_periods s =
     drop_duplicates [] np_actual_period
       (concat (map high_rows (high_eue_periods s)) @ concat (map snd (shoulder_periods s)))"

text \<open>
  \<^verbatim>\<open>main\<close> from line 421 to line 592. An exception of the NEUE summary is raised again
  unless capacity credit is in use; with capacity credit, or before the first year of the
  markets, \<^verbatim>\<open>main\<close> returns \<^verbatim>\<open>None\<close>. Otherwise the result is the state of the dictionaries
  after the loop and, when a criterion failed, the new stress periods.
\<close>

definition main ::
  "environment \<Rightarrow> switches \<Rightarrow> int \<Rightarrow> error + (selection \<times> new_period list) option" where
  "main env sw t =
     (case (case annual_neue env of
              Inl e \<Rightarrow> if \<not> truthy (GSw_PRM_CapCredit sw) then Inl e else Inr None
            | Inr neue \<Rightarrow> Inr (Some neue)) of
        Inl e \<Rightarrow> Inl e
      | Inr neue_opt \<Rightarrow>
          if truthy (GSw_PRM_CapCredit sw) \<or> t < GSw_StartMarkets sw then Inr None
          else
            (case neue_opt of
               None \<Rightarrow> Inr None
             | Some neue \<Rightarrow>
                 (case criteria_loop env sw neue
                         (split_on CHR ''/'' (GSw_PRM_StressThreshold sw)) no_selection of
                    Inl e \<Rightarrow> Inl e
                  | Inr s \<Rightarrow>
                      Inr (Some (s, if 0 < length (failed s) then new_stress_periods s else [])))))"

text \<open>The shoulder periods that lines 564 and 575 store for a selected row: the period
  after its day and the period before its day.\<close>

definition shoulder_after :: "environment \<Rightarrow> string \<Rightarrow> period_row \<Rightarrow> new_period" where
  "shoulder_after env criterion row =
     shoulder_row criterion (''after_'' @ actual_period row) (day_after env row) (period_r row)"

definition shoulder_before :: "environment \<Rightarrow> string \<Rightarrow> period_row \<Rightarrow> new_period" where
  "shoulder_before env criterion row =
     shoulder_row criterion (''before_'' @ actual_period row) (day_before env row) (period_r row)"

text \<open>The outcome of the annual threshold test of one criterion (lines 466 to 485):
  an exception, or whether a region exceeds the threshold.\<close>

definition threshold_test ::
  "environment \<Rightarrow> (string \<Rightarrow> string \<Rightarrow> (string \<times> real) list option) \<Rightarrow> string \<Rightarrow> error + bool" where
  "threshold_test env neue criterion =
     (case parse_criterion criterion of
        Inl e \<Rightarrow> Inl e
      | Inr (hierarchy_level, ppm, stress_metric, period_agg_method) \<Rightarrow>
          (case stress_periods env hierarchy_level stress_metric period_agg_method of
             Inl e \<Rightarrow> Inl e
           | Inr eue_periods \<Rightarrow>
               (case neue hierarchy_level period_agg_method of
                  None \<Rightarrow> Inl KeyError
                | Some this_test \<Rightarrow>
                    (case float_of env ppm of
                       None \<Rightarrow> Inl ValueError
                     | Some threshold \<Rightarrow> Inr (list_ex (\<lambda>(g, v). threshold < v) this_test)))))"

text \<open>The criteria whose threshold test \<^verbatim>\<open>main\<close> has printed, in the order of the output.\<close>

fun tested :: "message list \<Rightarrow> string list" where
  "tested [] = []"
| "tested (Criterion_failed c regions # msgs) = c # tested msgs"
| "tested (Criterion_passed c # msgs) = c # tested msgs"
| "tested (msg # msgs) = tested msgs"

text \<open>The table \<^verbatim>\<open>_eue_sorted_periods[criterion]\<close> of line 476, the candidate periods of a
  criterion in descending order of the stress metric; empty for a criterion that
  \<^verbatim>\<open>main\<close> cannot evaluate.\<close>

definition sorted_candidates :: "environment \<Rightarrow> string \<Rightarrow> period_row list" where
  "sorted_candidates env criterion =
     (case parse_criterion criterion of
        Inl e \<Rightarrow> []
      | Inr (hierarchy_level, ppm, stress_metric, period_agg_method) \<Rightarrow>
          (case stress_periods env hierarchy_level stress_metric period_agg_method of
             Inl e \<Rightarrow> []
           | Inr eue_periods \<Rightarrow> sort_values_desc period_metric eue_periods))"

text \<open>
  A run with three criteria. The first passes, the second fails for the region USA, and the
  third would fail for the region West. One period of USA is a stress period already, one
  new period is added for each failed region, and the storage cutoff adds both neighbours
  of every new period. The day after the new period of USA is the candidate period of the
  third criterion.
\<close>

definition example_neue :: "string \<Rightarrow> string \<Rightarrow> (string \<times> real) list option" where
  "example_neue level agg =
     (if level = ''r'' \<and> agg = ''max'' then Some [(''p1'', 500)]
      else if level = ''country'' \<and> agg = ''sum'' then Some [(''USA'', 150)]
      else if level = ''transreg'' \<and> agg = ''sum'' then Some [(''West'', 400)]
      else None)"

definition example_periods :: "string \<Rightarrow> string \<Rightarrow> string \<Rightarrow> error + period_row list" where
  "example_periods level metric agg =
     (if level = ''country'' then
        Inr [\<lparr>actual_period = ''y2012d001'', period_y = 2012, period_m = 1, period_d = 1,
               period_r = ''USA'', period_metric = 80\<rparr>,
             \<lparr>actual_period = ''y2012d200'', period_y = 2012, period_m = 7, period_d = 18,
               period_r = ''USA'', period_metric = 60\<rparr>,
             \<lparr>actual_period = ''y2012d005'', period_y = 2012, period_m = 1, period_d = 5,
               period_r = ''USA'', period_metric = 30\<rparr>]
      else if level = ''transreg'' then
        Inr [\<lparr>actual_period = ''y2012d201'', period_y = 2012, period_m = 7, period_d = 19,
               period_r = ''West'', period_metric = 99\<rparr>]
      else Inr [])"

definition example_env :: environment where
  "example_env =
     \<lparr>annual_neue = Inr example_neue,
      stress_periods = example_periods,
      float_of = (\<lambda>s. if s = ''1000'' then Some 1000 else if s = ''100'' then Some 100
                        else if s = ''10'' then Some 10 else None),
      stressperiods_this_iteration = [''y2012d001''],
      dfenergy_r_empty = False,
      storage_regions = (\<lambda>level. Inr [''USA'', ''West'']),
      headspace = (\<lambda>level row. Inr (1, 1, 1, 1)),
      day_before = (\<lambda>row. (''y2012d199'', 2012, 7, 17)),
      day_after = (\<lambda>row. (''y2012d201'', 2012, 7, 19))\<rparr>"

definition example_sw :: switches where
  "example_sw =
     \<lparr>GSw_PRM_StressThreshold = ''r_1000_EUE_max/country_100_EUE_sum/transreg_10_EUE_sum'',
      GSw_PRM_StressIncrement = 1,
      GSw_PRM_StressStorageCutoff = ''abs_0'',
      GSw_HourlyType = ''day'',
      GSw_PRM_CapCredit = 0,
      GSw_StartMarkets = 2025\<rparr>"

section \<open>Properties of the group-wise operations\<close>

lemma length_group_cumsum [simp]: "length (group_cumsum acc kvs) = length kvs"
  by (induction kvs arbitrary: acc) auto

lemma length_group_cumsum_shift [simp]: "length (group_cumsum_shift acc kvs) = length kvs"
  by (induction kvs arbitrary: acc) auto

lemma length_group_shift [simp]: "length (group_shift prev fill kvs) = length kvs"
  by (induction kvs arbitrary: prev) auto

lemma length_group_shift_back [simp]: "length (group_shift_back fill kvs) = length kvs"
  by (induction kvs) auto

lemma length_group_transform_sum [simp]: "length (group_transform_sum kvs) = length kvs"
  by (simp add: group_transform_sum_def)












section \<open>Properties of the shortfall curves\<close>






lemma group_total_Nil [simp]: "group_total [] g = 0"
  by (simp add: group_total_def)

lemma group_total_Cons [simp]:
  "group_total (kv # kvs) g = (if fst kv = g then snd kv else 0) + group_total kvs g"
  by (simp add: group_total_def)
























lemma length_plfs_slope [simp]: "length (plfs_slope n crit) = length (plfs_positive crit)"
  by (simp add: plfs_slope_def Let_def sort_values_def sort_values_desc_def
      plfs_cumslope_def plfs_intercept_def)

lemma length_plfs_Dy [simp]: "length (plfs_Dy S) = length S"
  by (simp add: plfs_Dy_def Let_def)

lemma length_plfs_y [simp]: "length (plfs_y P) = length P"
  by (simp add: plfs_y_def Let_def)



lemma net_short_crit_zero:
  fixes long :: "(nat \<times> nat \<times> 'r::linorder \<times> real) list"
  assumes "\<forall>(k, h, g, v)\<in>set long. v \<le> 0" and "c \<in> set (net_short_crit long)"
  shows "net_short_mwh c = 0"
proof -
  have z: "(\<Sum>x\<leftarrow>xs. case x of (k', h, g', v) \<Rightarrow> clip_lower 0 v) = 0"
    if "set xs \<subseteq> set long" for xs :: "(nat \<times> nat \<times> 'r \<times> real) list"
    using that assms(1) by (induction xs) (auto simp: clip_lower_def)
  from assms(2) show ?thesis
    unfolding net_short_crit_def by (auto simp: z)
qed


text \<open>
  Without a positive cell no row passes the filter of line 353, no curve is built, the
  column \<^verbatim>\<open>Dy\<close> is empty, its maximum is NaN and the comparison of the assertion is false.
\<close>

lemma update_prm_no_shortfall:
  fixes net_short :: "(nat \<times> ('r::linorder) sample_frame) list"
  assumes "net_short \<noteq> []" and "\<forall>(k, h, g, v)\<in>set (melt_net_short net_short). v \<le> 0"
  shows "update_prm_plfs net_short = Inl AssertionError"
proof -
  let ?crit = "net_short_crit (melt_net_short net_short)"
  have "filter (\<lambda>c. 0 < net_short_mwh c) ?crit = []"
    using net_short_crit_zero [OF assms(2)] by (auto simp: filter_empty_conv)
  then have "plfs_positive ?crit = []" by (simp add: plfs_positive_def)
  then have "length (plfs_Dy (plfs_slope (length net_short) ?crit)) = 0" by simp
  then have "plfs_Dy (plfs_slope (length net_short) ?crit) = []" by (simp only: length_0_conv)
  then show ?thesis using assms(1) by (simp add: update_prm_plfs_def Let_def Dy_check_def)
qed



lemma update_prm_plfs_example:
  "update_prm_plfs [(1, [(0, [(7::nat, 10)])]), (2, [(0, [(7, 4)])])]
   = Inr [\<lparr>r = 7, sample = 2, net_short_mwh = 4, intercept = 7, slope = - 1,
            x1 = 0, x2 = 4, Dy = - 4, y1 = 7, y2 = 3\<rparr>,
          \<lparr>r = 7, sample = 1, net_short_mwh = 10, intercept = 7, slope = - (1 / 2),
            x1 = 4, x2 = 10, Dy = - 3, y1 = 3, y2 = 0\<rparr>]"
  by (simp add: update_prm_plfs_def melt_net_short_def net_short_crit_def clip_lower_def
      plfs_slope_def plfs_positive_def plfs_intercept_def plfs_cumslope_def plfs_Dy_def plfs_y_def
      sort_values_def sort_values_desc_def group_transform_sum_def by_r_def Dy_check_def Let_def)

section \<open>The stress metric by period under NEUE\<close>

lemma map_of_graph:
  "map_of (map (\<lambda>k. (k, f k)) ks) k = (if k \<in> set ks then Some (f k) else None)"
  by (induction ks) auto

lemma column_cells_graph:
  "distinct ks \<Longrightarrow> k \<in> set ks \<Longrightarrow> column_cells k (map (\<lambda>k. (k, f k)) ks) = [f k]"
  by (induction ks) (auto simp: column_cells_def filter_empty_conv)

lemma sum_column_cells_rename:
  "sum_list (column_cells g (map (\<lambda>(c, v). (rename_label rmap c, v)) cells))
     = agg_region rmap cells g"
  by (induction cells) (auto simp: column_cells_def agg_region_def)

lemma sum_column_cells_rename_unfold:
  "sum_list (column_cells g (map (\<lambda>p. (rename_label rmap (fst p), snd p)) cells))
     = agg_region rmap cells g"
  using sum_column_cells_rename [of g rmap cells] by (simp add: case_prod_unfold)

text \<open>The labels of a frame after renaming and summing its columns.\<close>

lemma groupby_columns_sum_rename:
  assumes "frame_columns df cols"
  shows "groupby_columns_sum (rename_columns rmap df)
     = map (\<lambda>row. (fst row, map (\<lambda>g. (g, agg_region rmap (snd row) g))
                                (sort (remdups (map (rename_label rmap) cols))))) df"
proof -
  have "map fst (map (\<lambda>(c, v). (rename_label rmap c, v)) (snd row)) = map (rename_label rmap) cols"
    if "row \<in> set df" for row
  proof -
    have "map fst (map (\<lambda>(c, v). (rename_label rmap c, v)) (snd row))
        = map (rename_label rmap) (map fst (snd row))"
      by (simp add: case_prod_unfold o_def)
    also have "map fst (snd row) = cols" using that assms by (simp add: frame_columns_def)
    finally show ?thesis .
  qed
  then show ?thesis
    unfolding groupby_columns_sum_def rename_columns_def
    by (auto simp: case_prod_unfold sum_column_cells_rename_unfold o_def)
qed

lemma groupby_index_agg_graph:
  assumes "distinct L"
  shows "groupby_index_agg key agg (map (\<lambda>x. (idx x, map (\<lambda>g. (g, F x g)) L)) xs)
     = map (\<lambda>d. (d, map (\<lambda>g. (g, agg (map (\<lambda>x. F x g) (filter (\<lambda>x. key (idx x) = d) xs)))) L))
         (sort (remdups (map (\<lambda>x. key (idx x)) xs)))"
proof -
  let ?df = "map (\<lambda>x. (idx x, map (\<lambda>g. (g, F x g)) L)) xs"
  have grp: "filter (\<lambda>row. key (fst row) = d) ?df
      = map (\<lambda>x. (idx x, map (\<lambda>g. (g, F x g)) L)) (filter (\<lambda>x. key (idx x) = d) xs)" for d
    by (simp add: filter_map o_def)
  have cells: "concat (map (\<lambda>x. column_cells g (map (\<lambda>g. (g, F x g)) L)) ys) = map (\<lambda>x. F x g) ys"
    if "g \<in> set L" for g ys
    using that assms by (induction ys) (simp_all add: column_cells_graph)
  have labels: "(case map (\<lambda>x. (idx x, map (\<lambda>g. (g, F x g)) L)) (filter (\<lambda>x. key (idx x) = d) xs) of
                  [] \<Rightarrow> [] | row # _ \<Rightarrow> map fst (snd row)) = L"
    if "d \<in> set (sort (remdups (map (\<lambda>x. key (idx x)) xs)))" for d
  proof -
    from that obtain x where "x \<in> set xs" "key (idx x) = d" by auto
    then have "filter (\<lambda>x. key (idx x) = d) xs \<noteq> []" by (auto simp: filter_empty_conv)
    then obtain y ys where "filter (\<lambda>x. key (idx x) = d) xs = y # ys"
      by (cases "filter (\<lambda>x. key (idx x) = d) xs") auto
    then show ?thesis by (simp add: o_def)
  qed
  show ?thesis
    unfolding groupby_index_agg_def Let_def grp
    by (rule map_cong) (simp_all add: labels cells o_def)
qed

lemma frame_div_graph:
  "frame_div (map (\<lambda>x. (i x, map (\<lambda>g. (g, Fa x g)) La)) xs)
             (map (\<lambda>x. (j x, map (\<lambda>g. (g, Fb x g)) Lb)) xs)
   = map (\<lambda>x. (i x, map (\<lambda>c. (c, case (if c \<in> set La then Some (Fa x c) else None,
                                        if c \<in> set Lb then Some (Fb x c) else None) of
                                    (Some a, Some b) \<Rightarrow> float_div a b
                                  | _ \<Rightarrow> None))
                      (if La = Lb then La else sort (remdups (La @ Lb))))) xs"
  unfolding frame_div_def Let_def
  by (simp add: zip_map_map zip_same_conv_map o_def map_of_graph)

lemma frame_cell_scale_graph:
  assumes "d \<in> set ds" and "g \<in> set cols"
  shows "frame_cell (frame_scale k (map (\<lambda>d. (d, map (\<lambda>c. (c, Q d c)) cols)) ds)) d g
     = Some (map_option (\<lambda>a. a * k) (Q d g))"
proof -
  have "frame_scale k (map (\<lambda>d. (d, map (\<lambda>c. (c, Q d c)) cols)) ds)
      = map (\<lambda>d. (d, map (\<lambda>c. (c, map_option (\<lambda>a. a * k) (Q d c))) cols)) ds"
    by (simp add: frame_scale_def o_def)
  then show ?thesis using assms by (simp add: frame_cell_def map_of_graph)
qed

lemma distinct_aligned_columns:
  "distinct La \<Longrightarrow> distinct (if La = Lb then La else sort (remdups (La @ Lb)))"
  by (cases "La = Lb") simp_all

lemma neue_frames:
  fixes pras_eue :: "(timestamp, 'r::linorder, real) frame" and pras_load :: "('j, 'r, real) frame"
  assumes len: "length pras_load = length pras_eue"
    and fe: "frame_columns pras_eue ce" and fl: "frame_columns pras_load cl"
  shows "groupby_columns_sum (rename_columns rmap pras_eue)
       = map (\<lambda>z. (fst (fst z), map (\<lambda>g. (g, agg_region rmap (snd (fst z)) g))
                                   (sort (remdups (map (rename_label rmap) ce)))))
           (zip pras_eue pras_load)"
    and "set_index (map fst (groupby_columns_sum (rename_columns rmap pras_eue)))
           (groupby_columns_sum (rename_columns rmap pras_load))
       = Inr (map (\<lambda>z. (fst (fst z), map (\<lambda>g. (g, agg_region rmap (snd (snd z)) g))
                                   (sort (remdups (map (rename_label rmap) cl)))))
           (zip pras_eue pras_load))"
proof -
  have e: "pras_eue = map fst (zip pras_eue pras_load)" using len by simp
  have l: "pras_load = map snd (zip pras_eue pras_load)" using len by simp
  show 1: "groupby_columns_sum (rename_columns rmap pras_eue)
       = map (\<lambda>z. (fst (fst z), map (\<lambda>g. (g, agg_region rmap (snd (fst z)) g))
                                   (sort (remdups (map (rename_label rmap) ce)))))
           (zip pras_eue pras_load)"
    unfolding groupby_columns_sum_rename [OF fe]
    by (subst e) (simp only: map_map o_def)
  have 2: "groupby_columns_sum (rename_columns rmap pras_load)
       = map (\<lambda>z. (fst (snd z), map (\<lambda>g. (g, agg_region rmap (snd (snd z)) g))
                                   (sort (remdups (map (rename_label rmap) cl)))))
           (zip pras_eue pras_load)"
    unfolding groupby_columns_sum_rename [OF fl]
    by (subst l) (simp only: map_map o_def)
  show "set_index (map fst (groupby_columns_sum (rename_columns rmap pras_eue)))
           (groupby_columns_sum (rename_columns rmap pras_load))
       = Inr (map (\<lambda>z. (fst (fst z), map (\<lambda>g. (g, agg_region rmap (snd (snd z)) g))
                                   (sort (remdups (map (rename_label rmap) cl)))))
           (zip pras_eue pras_load))"
    unfolding 1 2 set_index_def
    by (simp add: zip_map_map zip_same_conv_map o_def)
qed

lemma those_map_Some [simp]: "those (map (\<lambda>x. Some (f x)) xs) = Some (map f xs)"
  by (induction xs) auto

lemma series_max_Max:
  assumes "vs \<noteq> []"
  shows "series_max vs = Some (Max (set vs))"
proof (cases vs)
  case Nil
  with assms show ?thesis by simp
next
  case (Cons v ws)
  then show ?thesis using Max.set_eq_fold [of v ws] by simp
qed

lemma NEUE_sum_cell:
  fixes pras_eue :: "(timestamp, 'r::linorder, real) frame" and pras_load :: "('j, 'r, real) frame"
  assumes len: "length pras_load = length pras_eue"
    and fe: "frame_columns pras_eue ce" and fl: "frame_columns pras_load cl"
    and ge: "g \<in> rename_label rmap ` set ce" and gl: "g \<in> rename_label rmap ` set cl"
    and day: "d \<in> (\<lambda>row. ymd (fst row)) ` set pras_eue"
    and nz: "(\<Sum>(eue, load)\<leftarrow>day_hours pras_eue pras_load d. agg_region rmap load g) \<noteq> 0"
  shows "\<exists>m. dfmetric_period rmap pras_eue pras_load ''NEUE'' ''sum'' = Inr m
           \<and> frame_cell m d g = Some (Some (NEUE_sum_spec rmap pras_eue pras_load d g))"
proof -
  let ?Z = "zip pras_eue pras_load"
  let ?Le = "sort (remdups (map (rename_label rmap) ce))"
  let ?Ll = "sort (remdups (map (rename_label rmap) cl))"
  let ?E = "map (\<lambda>z. (fst (fst z), map (\<lambda>g. (g, agg_region rmap (snd (fst z)) g)) ?Le)) ?Z"
  let ?L = "map (\<lambda>z. (fst (fst z), map (\<lambda>g. (g, agg_region rmap (snd (snd z)) g)) ?Ll)) ?Z"
  let ?days = "sort (remdups (map (\<lambda>z. ymd (fst (fst z))) ?Z))"
  let ?cols = "if ?Le = ?Ll then ?Le else sort (remdups (?Le @ ?Ll))"
  let ?Se = "\<lambda>d g. sum_list (map (\<lambda>z. agg_region rmap (snd (fst z)) g) (filter (\<lambda>z. ymd (fst (fst z)) = d) ?Z))"
  let ?Sl = "\<lambda>d g. sum_list (map (\<lambda>z. agg_region rmap (snd (snd z)) g) (filter (\<lambda>z. ymd (fst (fst z)) = d) ?Z))"
  let ?Q = "\<lambda>d c. case (if c \<in> set ?Le then Some (?Se d c) else None,
                        if c \<in> set ?Ll then Some (?Sl d c) else None) of
                    (Some a, Some b) \<Rightarrow> float_div a b | _ \<Rightarrow> None"
  let ?m = "frame_scale 1000000 (map (\<lambda>d. (d, map (\<lambda>c. (c, ?Q d c)) ?cols)) ?days)"
  note fr = neue_frames [OF len fe fl, of rmap]
  have "dfmetric_period rmap pras_eue pras_load ''NEUE'' ''sum''
      = Inr (frame_scale 1000000
               (frame_div (groupby_index_agg ymd sum_list (groupby_columns_sum (rename_columns rmap pras_eue)))
                          (groupby_index_agg ymd sum_list ?L)))"
    by (simp add: dfmetric_period_def Let_def upper_def fr(2))
  also have "groupby_columns_sum (rename_columns rmap pras_eue) = ?E" by (rule fr(1))
  also have "groupby_index_agg ymd sum_list ?E = map (\<lambda>d. (d, map (\<lambda>g. (g, ?Se d g)) ?Le)) ?days"
    by (rule groupby_index_agg_graph) simp
  also have "groupby_index_agg ymd sum_list ?L = map (\<lambda>d. (d, map (\<lambda>g. (g, ?Sl d g)) ?Ll)) ?days"
    by (rule groupby_index_agg_graph) simp
  also have "frame_div (map (\<lambda>d. (d, map (\<lambda>g. (g, ?Se d g)) ?Le)) ?days)
                       (map (\<lambda>d. (d, map (\<lambda>g. (g, ?Sl d g)) ?Ll)) ?days)
      = map (\<lambda>d. (d, map (\<lambda>c. (c, ?Q d c)) ?cols)) ?days"
    by (rule frame_div_graph)
  finally have res: "dfmetric_period rmap pras_eue pras_load ''NEUE'' ''sum'' = Inr ?m" .
  have e: "map fst ?Z = pras_eue" using len by simp
  have "d \<in> (\<lambda>row. ymd (fst row)) ` set (map fst ?Z)" using day by (simp only: e)
  then have d: "d \<in> set ?days" by (auto simp: image_iff)
  have gLe: "g \<in> set ?Le" and gLl: "g \<in> set ?Ll" using ge gl by simp_all
  then have g: "g \<in> set ?cols" by (cases "?Le = ?Ll") simp_all
  have Sl: "?Sl d g = (\<Sum>(eue, load)\<leftarrow>day_hours pras_eue pras_load d. agg_region rmap load g)"
    by (simp add: day_hours_def o_def case_prod_unfold)
  have Se: "?Se d g = (\<Sum>(eue, load)\<leftarrow>day_hours pras_eue pras_load d. agg_region rmap eue g)"
    by (simp add: day_hours_def o_def case_prod_unfold)
  have "?Q d g = float_div (?Se d g) (?Sl d g)" using gLe gLl by simp
  also have "\<dots> = Some (?Se d g / ?Sl d g)" using nz unfolding Sl float_div_def by simp
  finally have Q: "?Q d g = Some (?Se d g / ?Sl d g)" .
  have spec: "?Se d g / ?Sl d g * 1000000 = NEUE_sum_spec rmap pras_eue pras_load d g"
    unfolding NEUE_sum_spec_def by (simp only: Se Sl)
  have "frame_cell ?m d g = Some (map_option (\<lambda>a. a * 1000000) (?Q d g))"
    by (rule frame_cell_scale_graph [OF d g])
  also have "\<dots> = Some (Some (?Se d g / ?Sl d g * 1000000))"
    by (simp only: Q option.map)
  finally have "frame_cell ?m d g = Some (Some (NEUE_sum_spec rmap pras_eue pras_load d g))"
    by (simp only: spec)
  then show ?thesis using res by blast
qed

lemma NEUE_max_cell:
  fixes pras_eue :: "(timestamp, 'r::linorder, real) frame" and pras_load :: "('j, 'r, real) frame"
  assumes len: "length pras_load = length pras_eue"
    and fe: "frame_columns pras_eue ce" and fl: "frame_columns pras_load cl"
    and ge: "g \<in> rename_label rmap ` set ce" and gl: "g \<in> rename_label rmap ` set cl"
    and day: "d \<in> (\<lambda>row. ymd (fst row)) ` set pras_eue"
    and nz: "\<forall>(eue, load)\<in>set (day_hours pras_eue pras_load d). agg_region rmap load g \<noteq> 0"
  shows "\<exists>m. dfmetric_period rmap pras_eue pras_load ''NEUE'' ''max'' = Inr m
           \<and> frame_cell m d g = Some (Some (NEUE_max_spec rmap pras_eue pras_load d g))"
proof -
  let ?Z = "zip pras_eue pras_load"
  let ?Le = "sort (remdups (map (rename_label rmap) ce))"
  let ?Ll = "sort (remdups (map (rename_label rmap) cl))"
  let ?E = "map (\<lambda>z. (fst (fst z), map (\<lambda>g. (g, agg_region rmap (snd (fst z)) g)) ?Le)) ?Z"
  let ?L = "map (\<lambda>z. (fst (fst z), map (\<lambda>g. (g, agg_region rmap (snd (snd z)) g)) ?Ll)) ?Z"
  let ?days = "sort (remdups (map (\<lambda>z. ymd (fst (fst z))) ?Z))"
  let ?cols = "if ?Le = ?Ll then ?Le else sort (remdups (?Le @ ?Ll))"
  let ?Zd = "filter (\<lambda>z. ymd (fst (fst z)) = d) ?Z"
  let ?R = "\<lambda>z c. case (if c \<in> set ?Le then Some (agg_region rmap (snd (fst z)) c) else None,
                        if c \<in> set ?Ll then Some (agg_region rmap (snd (snd z)) c) else None) of
                    (Some a, Some b) \<Rightarrow> float_div a b | _ \<Rightarrow> None"
  let ?ratio = "\<lambda>z. agg_region rmap (snd (fst z)) g / agg_region rmap (snd (snd z)) g"
  let ?Q = "\<lambda>d g. agg_max (map (\<lambda>z. ?R z g) (filter (\<lambda>z. ymd (fst (fst z)) = d) ?Z))"
  let ?m = "frame_scale 1000000 (map (\<lambda>d. (d, map (\<lambda>c. (c, ?Q d c)) ?cols)) ?days)"
  note fr = neue_frames [OF len fe fl, of rmap]
  have dc: "distinct ?cols" by (rule distinct_aligned_columns) simp
  have "dfmetric_period rmap pras_eue pras_load ''NEUE'' ''max''
      = Inr (frame_scale 1000000
               (groupby_index_agg ymd agg_max
                  (frame_div (groupby_columns_sum (rename_columns rmap pras_eue)) ?L)))"
    by (simp add: dfmetric_period_def Let_def upper_def fr(2))
  also have "groupby_columns_sum (rename_columns rmap pras_eue) = ?E" by (rule fr(1))
  also have "frame_div ?E ?L = map (\<lambda>z. (fst (fst z), map (\<lambda>c. (c, ?R z c)) ?cols)) ?Z"
    by (rule frame_div_graph)
  also have "groupby_index_agg ymd agg_max (map (\<lambda>z. (fst (fst z), map (\<lambda>c. (c, ?R z c)) ?cols)) ?Z)
      = map (\<lambda>d. (d, map (\<lambda>c. (c, ?Q d c)) ?cols)) ?days"
    by (rule groupby_index_agg_graph [OF dc])
  finally have res: "dfmetric_period rmap pras_eue pras_load ''NEUE'' ''max'' = Inr ?m" .
  have e: "map fst ?Z = pras_eue" using len by simp
  have "d \<in> (\<lambda>row. ymd (fst row)) ` set (map fst ?Z)" using day by (simp only: e)
  then have d: "d \<in> set ?days" by (auto simp: image_iff)
  then have Zd: "?Zd \<noteq> []" by (auto simp: filter_empty_conv)
  have gLe: "g \<in> set ?Le" and gLl: "g \<in> set ?Ll" using ge gl by simp_all
  then have g: "g \<in> set ?cols" by (cases "?Le = ?Ll") simp_all
  have R: "?R z g = Some (?ratio z)" if "z \<in> set ?Zd" for z
  proof -
    have dh: "day_hours pras_eue pras_load d = map (\<lambda>z. (snd (fst z), snd (snd z))) ?Zd"
      by (simp add: day_hours_def case_prod_unfold)
    have "(\<lambda>z. (snd (fst z), snd (snd z))) z \<in> (\<lambda>z. (snd (fst z), snd (snd z))) ` set ?Zd"
      using that by (rule imageI)
    then have "(snd (fst z), snd (snd z)) \<in> set (day_hours pras_eue pras_load d)"
      by (simp only: dh set_map)
    then have "agg_region rmap (snd (snd z)) g \<noteq> 0" using nz by auto
    then show ?thesis using gLe gLl by (simp add: float_div_def)
  qed
  have "map (\<lambda>z. ?R z g) ?Zd = map (\<lambda>z. Some (?ratio z)) ?Zd"
    by (rule map_cong [OF refl]) (rule R)
  then have "?Q d g = agg_max (map (\<lambda>z. Some (?ratio z)) ?Zd)" by (simp only:)
  also have "\<dots> = series_max (map ?ratio ?Zd)" by (simp add: agg_max_def)
  also have "\<dots> = Some (Max (set (map ?ratio ?Zd)))" using Zd by (intro series_max_Max) simp
  finally have Q: "?Q d g = Some (Max (set (map ?ratio ?Zd)))" .
  have "map ?ratio ?Zd = map (\<lambda>(eue, load). agg_region rmap eue g / agg_region rmap load g)
                (day_hours pras_eue pras_load d)"
    by (simp add: day_hours_def o_def case_prod_unfold)
  then have spec: "Max (set (map ?ratio ?Zd)) * 1000000 = NEUE_max_spec rmap pras_eue pras_load d g"
    unfolding NEUE_max_spec_def by (simp only:)
  have "frame_cell ?m d g = Some (map_option (\<lambda>a. a * 1000000) (?Q d g))"
    by (rule frame_cell_scale_graph [OF d g])
  also have "\<dots> = Some (Some (Max (set (map ?ratio ?Zd)) * 1000000))"
    by (simp only: Q option.map)
  finally have "frame_cell ?m d g = Some (Some (NEUE_max_spec rmap pras_eue pras_load d g))"
    by (simp only: spec)
  then show ?thesis using res by blast
qed

lemmas frame_defs = dfmetric_period_def groupby_columns_sum_def rename_columns_def
  rename_label_def column_cells_def groupby_index_agg_def set_index_def float_div_def
  frame_div_def frame_scale_def agg_max_def upper_def Let_def

lemma example_NEUE_sum:
  "dfmetric_period example_rmap example_eue example_load ''NEUE'' ''sum''
     = Inr [((2012, 1, 1), [(5, Some 10000)]), ((2012, 1, 2), [(5, Some (100000 / 3))])]"
  by (simp add: frame_defs example_rmap_def example_eue_def example_load_def)

lemma example_NEUE_max:
  "dfmetric_period example_rmap example_eue example_load ''NEUE'' ''max''
     = Inr [((2012, 1, 1), [(5, Some 50000)]), ((2012, 1, 2), [(5, Some 70000)])]"
  by (simp add: frame_defs example_rmap_def example_eue_def example_load_def)

text \<open>
  Claim C2. For a day \<open>d\<close> of the index and an aggregate region \<open>g\<close> that both frames
  have, \<^verbatim>\<open>get_stress_periods\<close> with the stress metric NEUE computes, under \<^verbatim>\<open>'sum'\<close>, the
  unserved energy of the region summed over the day, divided by its load summed over the day,
  times 1e6 (where the daily load is not zero), and under \<^verbatim>\<open>'max'\<close>, the largest hourly
  ratio of the unserved energy of the region to its load within the day, times 1e6 (where no
  hourly load of the day is zero). On the example data set, where on the first day the
  unserved energy peaks in one hour and the load in the other, the two methods give
  different values for the same day and region.
\<close>

theorem NEUE_sum_max_formulas:
  fixes pras_eue :: "(timestamp, 'r::linorder, real) frame" and pras_load :: "('j, 'r, real) frame"
  assumes "length pras_load = length pras_eue"
    and "frame_columns pras_eue ce" and "frame_columns pras_load cl"
    and "g \<in> rename_label rmap ` set ce" and "g \<in> rename_label rmap ` set cl"
    and "d \<in> (\<lambda>row. ymd (fst row)) ` set pras_eue"
  shows "((\<Sum>(eue, load)\<leftarrow>day_hours pras_eue pras_load d. agg_region rmap load g) \<noteq> 0 \<longrightarrow>
            (\<exists>m. dfmetric_period rmap pras_eue pras_load ''NEUE'' ''sum'' = Inr m
               \<and> frame_cell m d g = Some (Some (NEUE_sum_spec rmap pras_eue pras_load d g))))
       \<and> ((\<forall>(eue, load)\<in>set (day_hours pras_eue pras_load d). agg_region rmap load g \<noteq> 0) \<longrightarrow>
            (\<exists>m. dfmetric_period rmap pras_eue pras_load ''NEUE'' ''max'' = Inr m
               \<and> frame_cell m d g = Some (Some (NEUE_max_spec rmap pras_eue pras_load d g))))
       \<and> (\<exists>ms mm vs vm.
             dfmetric_period example_rmap example_eue example_load ''NEUE'' ''sum'' = Inr ms
           \<and> dfmetric_period example_rmap example_eue example_load ''NEUE'' ''max'' = Inr mm
           \<and> frame_cell ms (2012, 1, 1) 5 = Some (Some vs)
           \<and> frame_cell mm (2012, 1, 1) 5 = Some (Some vm)
           \<and> vs \<noteq> vm)"
proof (intro conjI impI)
  assume "(\<Sum>(eue, load)\<leftarrow>day_hours pras_eue pras_load d. agg_region rmap load g) \<noteq> 0"
  then show "\<exists>m. dfmetric_period rmap pras_eue pras_load ''NEUE'' ''sum'' = Inr m
               \<and> frame_cell m d g = Some (Some (NEUE_sum_spec rmap pras_eue pras_load d g))"
    by (rule NEUE_sum_cell [OF assms])
next
  assume "\<forall>(eue, load)\<in>set (day_hours pras_eue pras_load d). agg_region rmap load g \<noteq> 0"
  then show "\<exists>m. dfmetric_period rmap pras_eue pras_load ''NEUE'' ''max'' = Inr m
               \<and> frame_cell m d g = Some (Some (NEUE_max_spec rmap pras_eue pras_load d g))"
    by (rule NEUE_max_cell [OF assms])
next
  have "frame_cell [((2012, 1, 1), [(5, Some 10000)]), ((2012, 1, 2), [(5, Some (100000 / 3))])]
          ((2012::nat, 1::nat, 1::nat)) (5::nat) = Some (Some (10000::real))"
    by (simp add: frame_cell_def)
  moreover have "frame_cell [((2012, 1, 1), [(5, Some 50000)]), ((2012, 1, 2), [(5, Some 70000)])]
          ((2012::nat, 1::nat, 1::nat)) (5::nat) = Some (Some (50000::real))"
    by (simp add: frame_cell_def)
  moreover have "(10000::real) \<noteq> 50000" by simp
  ultimately show "\<exists>ms mm vs vm.
             dfmetric_period example_rmap example_eue example_load ''NEUE'' ''sum'' = Inr ms
           \<and> dfmetric_period example_rmap example_eue example_load ''NEUE'' ''max'' = Inr mm
           \<and> frame_cell ms (2012, 1, 1) 5 = Some (Some vs)
           \<and> frame_cell mm (2012, 1, 1) 5 = Some (Some vm)
           \<and> vs \<noteq> vm"
    using example_NEUE_sum example_NEUE_max by blast
qed

lemma example_hypotheses:
  "length example_load = length example_eue"
  "frame_columns example_eue [1, 2]"
  "frame_columns example_load [1, 2]"
  "5 \<in> rename_label example_rmap ` set [1, 2]"
  "(2012, 1, 1) \<in> (\<lambda>row. ymd (fst row)) ` set example_eue"
  "(\<Sum>(eue, load)\<leftarrow>day_hours example_eue example_load (2012, 1, 1). agg_region example_rmap load 5) \<noteq> 0"
  "\<forall>(eue, load)\<in>set (day_hours example_eue example_load (2012, 1, 1)). agg_region example_rmap load 5 \<noteq> 0"
  by (simp_all add: example_eue_def example_load_def example_rmap_def frame_columns_def
      rename_label_def day_hours_def agg_region_def)

theorem NEUE_sum_max_formulas_witness:
  "length example_load = length example_eue
   \<and> 5 \<in> rename_label example_rmap ` set [1, 2]
   \<and> (2012, 1, 1) \<in> (\<lambda>row. ymd (fst row)) ` set example_eue
   \<and> (\<Sum>(eue, load)\<leftarrow>day_hours example_eue example_load (2012, 1, 1). agg_region example_rmap load 5) \<noteq> 0
   \<and> (\<exists>m. dfmetric_period example_rmap example_eue example_load ''NEUE'' ''sum'' = Inr m
         \<and> frame_cell m (2012, 1, 1) 5
             = Some (Some (NEUE_sum_spec example_rmap example_eue example_load (2012, 1, 1) 5)))
   \<and> (\<exists>m. dfmetric_period example_rmap example_eue example_load ''NEUE'' ''max'' = Inr m
         \<and> frame_cell m (2012, 1, 1) 5
             = Some (Some (NEUE_max_spec example_rmap example_eue example_load (2012, 1, 1) 5)))"
  using example_hypotheses
    NEUE_sum_max_formulas [OF example_hypotheses(1,2,3,4,4,5)]
  by blast

lemma example_NEUE_specs:
  "NEUE_sum_spec example_rmap example_eue example_load (2012, 1, 1) 5 = 10000"
  "NEUE_max_spec example_rmap example_eue example_load (2012, 1, 1) 5 = 50000"
  by (simp_all add: NEUE_sum_spec_def NEUE_max_spec_def day_hours_def agg_region_def
      rename_label_def example_eue_def example_load_def example_rmap_def)

section \<open>The first failing criterion ends the selection\<close>

lemma tested_append [simp]: "tested (msgs @ msgs') = tested msgs @ tested msgs'"
  by (induction msgs rule: tested.induct) simp_all

lemma tested_added [simp]:
  "tested (map (\<lambda>row. Added_stress_period (f row) (g row) (h row)) rows) = []"
  by (induction rows) simp_all

lemma dict_set_keys: "fst ` set (dict_set kvs k v) = insert k (fst ` set kvs)"
  by (induction kvs) auto

lemma dict_set_values: "kv \<in> set (dict_set kvs k v) \<Longrightarrow> kv = (k, v) \<or> kv \<in> set kvs"
  by (induction kvs) (auto split: if_splits)

lemma set_drop_duplicates: "set (drop_duplicates seen key rows) \<subseteq> set rows"
  by (induction rows arbitrary: seen) auto

lemma set_group_head: "set (group_head seen n key rows) \<subseteq> set rows"
  by (induction rows arbitrary: seen) (auto simp: Let_def)

lemma select_high_eue_subset:
  "set (select_high_eue env sw sorted_periods regions) \<subseteq> set sorted_periods"
  unfolding select_high_eue_def
  using set_group_head set_drop_duplicates by fastforce

lemma set_sort_values_desc [simp]: "set (sort_values_desc k rows) = set rows"
  by (simp add: sort_values_desc_def)

text \<open>A criterion that passes its test hands the rest of the list on.\<close>

lemma criteria_loop_passed:
  assumes "threshold_test env neue c = Inr False"
  shows "criteria_loop env sw neue (c # rest) s
           = criteria_loop env sw neue rest
               (s\<lparr>eue_sorted_periods := dict_set (eue_sorted_periods s) c (sorted_candidates env c),
                  printed := printed s @ [Criterion_passed c]\<rparr>)"
  using assms unfolding threshold_test_def sorted_candidates_def
  by (auto simp: Let_def split: sum.splits option.splits prod.splits)

text \<open>A criterion that fails its test ends the loop: the rest of the list is not read.\<close>

lemma criteria_loop_failed:
  assumes "threshold_test env neue c = Inr True"
  shows "criteria_loop env sw neue (c # rest) s = criteria_loop env sw neue [c] s"
  using assms unfolding threshold_test_def
  by (auto simp: Let_def split: sum.splits option.splits prod.splits)

lemma criteria_loop_first_failure:
  assumes "\<forall>p\<in>set pre. threshold_test env neue p = Inr False"
    and "threshold_test env neue c = Inr True"
  shows "criteria_loop env sw neue (pre @ c # post) s = criteria_loop env sw neue (pre @ [c]) s"
  using assms(1)
proof (induction pre arbitrary: s)
  case Nil
  show ?case using criteria_loop_failed [OF assms(2)] by simp
next
  case (Cons p pre)
  have p: "threshold_test env neue p = Inr False" using Cons.prems by simp
  have pre: "\<forall>p\<in>set pre. threshold_test env neue p = Inr False" using Cons.prems by simp
  show ?case
    unfolding append_Cons criteria_loop_passed [OF p]
    by (rule Cons.IH [OF pre])
qed

text \<open>The state after a run of criteria that pass.\<close>

lemma criteria_loop_prefix:
  assumes "\<forall>p\<in>set pre. threshold_test env neue p = Inr False"
  shows "\<exists>s'. criteria_loop env sw neue (pre @ rest) s = criteria_loop env sw neue rest s'
           \<and> failed s' = failed s \<and> high_eue_periods s' = high_eue_periods s
           \<and> shoulder_periods s' = shoulder_periods s
           \<and> tested (printed s') = tested (printed s) @ pre"
  using assms
proof (induction pre arbitrary: s)
  case Nil
  show ?case by (intro exI [of _ s]) simp
next
  case (Cons p pre)
  have p: "threshold_test env neue p = Inr False" using Cons.prems by simp
  have pre: "\<forall>p\<in>set pre. threshold_test env neue p = Inr False" using Cons.prems by simp
  let ?s = "s\<lparr>eue_sorted_periods := dict_set (eue_sorted_periods s) p (sorted_candidates env p),
                  printed := printed s @ [Criterion_passed p]\<rparr>"
  obtain s' where "criteria_loop env sw neue (pre @ rest) ?s = criteria_loop env sw neue rest s'"
    and "failed s' = failed ?s" and "high_eue_periods s' = high_eue_periods ?s"
    and "shoulder_periods s' = shoulder_periods ?s"
    and "tested (printed s') = tested (printed ?s) @ pre"
    using Cons.IH [OF pre, of ?s] by blast
  then show ?case
    unfolding append_Cons criteria_loop_passed [OF p]
    by (intro exI [of _ s']) simp
qed

lemma add_shoulder_props:
  assumes "add_shoulder env c lvl metric ct cu regions row s = Inr s'"
  shows "failed s' = failed s \<and> high_eue_periods s' = high_eue_periods s
       \<and> tested (printed s') = tested (printed s)
       \<and> (\<forall>entry\<in>set (shoulder_periods s'). entry \<in> set (shoulder_periods s)
            \<or> fst (fst entry) = c
              \<and> snd entry \<in> {[shoulder_after env c row], [shoulder_before env c row]})"
  using assms unfolding add_shoulder_def Let_def shoulder_after_def shoulder_before_def
  by (auto split: if_splits sum.splits prod.splits dest!: dict_set_values)

lemma add_shoulders_props:
  assumes "add_shoulders env c lvl metric ct cu regions rows s = Inr s'"
  shows "failed s' = failed s \<and> high_eue_periods s' = high_eue_periods s
       \<and> tested (printed s') = tested (printed s)
       \<and> (\<forall>entry\<in>set (shoulder_periods s'). entry \<in> set (shoulder_periods s)
            \<or> fst (fst entry) = c
              \<and> (\<exists>row\<in>set rows.
                    snd entry \<in> {[shoulder_after env c row], [shoulder_before env c row]}))"
  using assms
proof (induction rows arbitrary: s)
  case Nil
  then show ?case by simp
next
  case (Cons row rows)
  from Cons.prems obtain s1 where 1: "add_shoulder env c lvl metric ct cu regions row s = Inr s1"
    and 2: "add_shoulders env c lvl metric ct cu regions rows s1 = Inr s'"
    by (auto split: sum.splits)
  note p1 = add_shoulder_props [OF 1]
  note p2 = Cons.IH [OF 2]
  show ?case
  proof (intro conjI ballI)
    fix entry assume "entry \<in> set (shoulder_periods s')"
    then consider "entry \<in> set (shoulder_periods s1)"
      | "fst (fst entry) = c \<and> (\<exists>row\<in>set rows.
                    snd entry \<in> {[shoulder_after env c row], [shoulder_before env c row]})"
      using p2 by blast
    then show "entry \<in> set (shoulder_periods s)
            \<or> fst (fst entry) = c
              \<and> (\<exists>row\<in>set (row # rows).
                    snd entry \<in> {[shoulder_after env c row], [shoulder_before env c row]})"
    proof cases
      case 1
      then show ?thesis using p1 by auto
    next
      case 2
      then show ?thesis by auto
    qed
  qed (use p1 p2 in simp_all)
qed

lemma criterion_failed_props:
  assumes "criterion_failed env sw c lvl metric this_test thr sorted_periods s = Inr s'"
  shows "failed s' = dict_set (failed s) c (filter (\<lambda>(g, v). thr < v) this_test)
       \<and> high_eue_periods s'
           = dict_set (high_eue_periods s) (c, ''high_'' @ metric)
               (select_high_eue env sw sorted_periods
                  (map fst (filter (\<lambda>(g, v). thr < v) this_test)))
       \<and> tested (printed s') = tested (printed s) @ [c]
       \<and> (\<forall>entry\<in>set (shoulder_periods s'). entry \<in> set (shoulder_periods s)
            \<or> fst (fst entry) = c
              \<and> (\<exists>row\<in>set (select_high_eue env sw sorted_periods
                               (map fst (filter (\<lambda>(g, v). thr < v) this_test))).
                    snd entry \<in> {[shoulder_after env c row], [shoulder_before env c row]}))"
proof -
  let ?failed_c = "filter (\<lambda>(g, v). thr < v) this_test"
  let ?high = "select_high_eue env sw sorted_periods (map fst ?failed_c)"
  let ?s = "s\<lparr>failed := dict_set (failed s) c ?failed_c,
                high_eue_periods := dict_set (high_eue_periods s) (c, ''high_'' @ metric) ?high,
                printed := printed s @ [Criterion_failed c ?failed_c]
                  @ map (\<lambda>row. Added_stress_period (actual_period row) (period_r row)
                                  (period_metric row)) ?high\<rparr>"
  consider (off) "s' = ?s\<lparr>printed := printed ?s @ [Not_adding_shoulder]\<rparr>"
    | (empty) "s' = ?s\<lparr>printed := printed ?s @ [No_storage]\<rparr>"
    | (loop) ct cu regions where "add_shoulders env c lvl metric ct cu regions ?high ?s = Inr s'"
    using assms unfolding criterion_failed_def Let_def
    by (auto split: if_splits list.splits sum.splits)
  then show ?thesis
  proof cases
    case off
    then show ?thesis by simp
  next
    case empty
    then show ?thesis by simp
  next
    case loop
    note p = add_shoulders_props [OF loop]
    then show ?thesis by simp
  qed
qed

text \<open>The state after the branch of the first criterion that fails.\<close>

lemma criteria_loop_single_failure:
  assumes test: "threshold_test env neue c = Inr True"
    and run: "criteria_loop env sw neue [c] s = Inr s'"
    and fresh: "failed s = []" "high_eue_periods s = []" "shoulder_periods s = []"
  shows "map fst (failed s') = [c]
       \<and> (\<forall>entry\<in>set (high_eue_periods s'). fst (fst entry) = c
            \<and> set (snd entry) \<subseteq> set (sorted_candidates env c))
       \<and> (\<forall>entry\<in>set (shoulder_periods s'). fst (fst entry) = c
            \<and> (\<exists>selected\<in>set (high_eue_periods s'). \<exists>row\<in>set (snd selected).
                  snd entry \<in> {[shoulder_after env c row], [shoulder_before env c row]}))
       \<and> tested (printed s') = tested (printed s) @ [c]"
proof -
  from test obtain lvl ppm metric agg tbl this_test thr where
    parse: "parse_criterion c = Inr (lvl, ppm, metric, agg)"
    and tbl: "stress_periods env lvl metric agg = Inr tbl"
    and neue: "neue lvl agg = Some this_test"
    and thr: "float_of env ppm = Some thr"
    and ex: "list_ex (\<lambda>(g, v). thr < v) this_test"
    unfolding threshold_test_def
    by (auto split: sum.splits option.splits prod.splits)
  let ?sorted = "sort_values_desc period_metric tbl"
  let ?s = "s\<lparr>eue_sorted_periods := dict_set (eue_sorted_periods s) c ?sorted\<rparr>"
  let ?high = "select_high_eue env sw ?sorted (map fst (filter (\<lambda>(g, v). thr < v) this_test))"
  have cand: "sorted_candidates env c = ?sorted"
    by (simp add: sorted_candidates_def parse tbl)
  have "criterion_failed env sw c lvl metric this_test thr ?sorted ?s = Inr s'"
    using run by (simp add: parse tbl neue thr ex Let_def)
  note p = criterion_failed_props [OF this]
  have high: "high_eue_periods s' = [((c, ''high_'' @ metric), ?high)]"
    using p fresh by simp
  have "map fst (failed s') = [c]" using p fresh by simp
  moreover have "\<forall>entry\<in>set (high_eue_periods s'). fst (fst entry) = c
            \<and> set (snd entry) \<subseteq> set (sorted_candidates env c)"
    using high select_high_eue_subset [of env sw ?sorted] by (simp add: cand)
  moreover have "\<forall>entry\<in>set (shoulder_periods s'). fst (fst entry) = c
            \<and> (\<exists>selected\<in>set (high_eue_periods s'). \<exists>row\<in>set (snd selected).
                  snd entry \<in> {[shoulder_after env c row], [shoulder_before env c row]})"
  proof
    fix entry assume "entry \<in> set (shoulder_periods s')"
    then have "fst (fst entry) = c \<and> (\<exists>row\<in>set ?high.
                  snd entry \<in> {[shoulder_after env c row], [shoulder_before env c row]})"
      using p fresh by auto
    then show "fst (fst entry) = c
            \<and> (\<exists>selected\<in>set (high_eue_periods s'). \<exists>row\<in>set (snd selected).
                  snd entry \<in> {[shoulder_after env c row], [shoulder_before env c row]})"
      unfolding high by simp
  qed
  moreover have "tested (printed s') = tested (printed s) @ [c]" using p by simp
  ultimately show ?thesis by blast
qed

lemma criterion_failed_threshold_free:
  "criterion_failed env (sw\<lparr>GSw_PRM_StressThreshold := x\<rparr>) c lvl metric this_test thr sorted_periods s
     = criterion_failed env sw c lvl metric this_test thr sorted_periods s"
  by (simp add: criterion_failed_def select_high_eue_def Let_def cong: list.case_cong if_cong)

lemma criteria_loop_threshold_free:
  "criteria_loop env (sw\<lparr>GSw_PRM_StressThreshold := x\<rparr>) neue cs s = criteria_loop env sw neue cs s"
  by (induction cs arbitrary: s)
    (simp_all add: criterion_failed_threshold_free Let_def split: sum.splits option.splits prod.splits)

lemma new_stress_periods_selected:
  assumes shoulder: "\<forall>entry\<in>set (shoulder_periods s). fst (fst entry) = c
            \<and> (\<exists>selected\<in>set (high_eue_periods s). \<exists>row\<in>set (snd selected).
                  snd entry \<in> {[shoulder_after env c row], [shoulder_before env c row]})"
    and np: "np \<in> set (new_stress_periods s)"
  shows "\<exists>selected\<in>set (high_eue_periods s).
           np \<in> set (high_rows selected)
         \<or> (\<exists>row\<in>set (snd selected).
               np = shoulder_after env c row \<or> np = shoulder_before env c row)"
proof -
  from np have "np \<in> set (concat (map high_rows (high_eue_periods s)) @ concat (map snd (shoulder_periods s)))"
    unfolding new_stress_periods_def using set_drop_duplicates by fastforce
  then consider (high) entry where "entry \<in> set (high_eue_periods s)" "np \<in> set (high_rows entry)"
    | (shoulder) entry where "entry \<in> set (shoulder_periods s)" "np \<in> set (snd entry)"
    by auto
  then show ?thesis
  proof cases
    case high
    then show ?thesis by blast
  next
    case shoulder
    then obtain selected row where "selected \<in> set (high_eue_periods s)" "row \<in> set (snd selected)"
      and "snd entry \<in> {[shoulder_after env c row], [shoulder_before env c row]}"
      using assms(1) by blast
    then show ?thesis using shoulder(2) by (intro bexI [of _ selected]) auto
  qed
qed

lemma new_stress_periods_origin:
  assumes high: "\<forall>entry\<in>set (high_eue_periods s). fst (fst entry) = c
            \<and> set (snd entry) \<subseteq> set tbl"
    and sel: "\<exists>selected\<in>set (high_eue_periods s).
           np \<in> set (high_rows selected)
         \<or> (\<exists>row\<in>set (snd selected).
               np = shoulder_after env c row \<or> np = shoulder_before env c row)"
  shows "np_criterion np = c
       \<and> (\<exists>row\<in>set tbl. np_r np = period_r row
            \<and> (np_actual_period np, np_y np, np_m np, np_d np)
                 \<in> {(actual_period row, period_y row, period_m row, period_d row),
                    day_after env row, day_before env row})"
proof -
  from sel obtain selected where selected: "selected \<in> set (high_eue_periods s)"
    and cases: "np \<in> set (high_rows selected)
         \<or> (\<exists>row\<in>set (snd selected).
               np = shoulder_after env c row \<or> np = shoulder_before env c row)"
    by blast
  have c: "fst (fst selected) = c" and sub: "set (snd selected) \<subseteq> set tbl"
    using high selected by auto
  from cases show ?thesis
  proof
    assume "np \<in> set (high_rows selected)"
    then obtain row where row: "row \<in> set (snd selected)"
      and eq: "np = \<lparr>np_criterion = fst (fst selected), np_periodtype = snd (fst selected),
                 np_actual_period = actual_period row, np_y = period_y row,
                 np_m = period_m row, np_d = period_d row, np_r = period_r row\<rparr>"
      unfolding high_rows_def by auto
    have "row \<in> set tbl" using sub row by auto
    then show ?thesis using eq c by auto
  next
    assume "\<exists>row\<in>set (snd selected).
               np = shoulder_after env c row \<or> np = shoulder_before env c row"
    then obtain row where row: "row \<in> set (snd selected)"
      and eq: "np = shoulder_after env c row \<or> np = shoulder_before env c row"
      by blast
    have tbl: "row \<in> set tbl" using sub row by auto
    obtain pa ya ma da where a: "day_after env row = (pa, ya, ma, da)" by (cases "day_after env row")
    obtain pb yb mb db where b: "day_before env row = (pb, yb, mb, db)" by (cases "day_before env row")
    from eq have "np_criterion np = c \<and> np_r np = period_r row
        \<and> (np_actual_period np, np_y np, np_m np, np_d np)
             \<in> {day_after env row, day_before env row}"
      by (auto simp: shoulder_after_def shoulder_before_def shoulder_row_def a b)
    then show ?thesis using tbl by (intro conjI bexI [of _ row]) auto
  qed
qed

text \<open>
  Claim C3, as the code has it. Let the criterion list of \<^verbatim>\<open>GSw_PRM_StressThreshold\<close> be
  \<open>pre @ c # post\<close>, where every criterion of \<open>pre\<close> passes its annual threshold test and
  \<open>c\<close> fails it. Then the selection of \<^verbatim>\<open>main\<close> (lines 421 to 592) gives the same
  dictionaries, the same output and the same new stress periods, or the same exception, for
  every other list that begins with \<open>pre @ [c]\<close>: what follows \<open>c\<close> is never read, whether
  it would fail or not. When the selection returns, the criteria whose test it has printed
  are those of \<open>pre\<close> and then \<open>c\<close>; \<open>c\<close> is the only key of \<^verbatim>\<open>failed\<close> and the only
  criterion among the keys of \<^verbatim>\<open>high_eue_periods\<close> and \<^verbatim>\<open>shoulder_periods\<close>; the selected
  periods of \<^verbatim>\<open>high_eue_periods\<close> are candidate periods of \<open>c\<close>; and every new stress period
  carries the criterion \<open>c\<close> and is a selected period or a shoulder period, the period
  after or before the day of a selected one. A shoulder period need not be a candidate
  period of \<open>c\<close>.
\<close>

theorem first_failing_criterion_wins:
  assumes "annual_neue env = Inr neue"
    and "\<not> truthy (GSw_PRM_CapCredit sw)" and "GSw_StartMarkets sw \<le> t"
    and "split_on CHR ''/'' (GSw_PRM_StressThreshold sw) = pre @ c # post"
    and "\<forall>p\<in>set pre. threshold_test env neue p = Inr False"
    and "threshold_test env neue c = Inr True"
  shows "(\<forall>thr' post'. split_on CHR ''/'' thr' = pre @ c # post' \<longrightarrow>
            main env (sw\<lparr>GSw_PRM_StressThreshold := thr'\<rparr>) t = main env sw t)
       \<and> (\<forall>s new. main env sw t = Inr (Some (s, new)) \<longrightarrow>
            tested (printed s) = pre @ [c]
          \<and> map fst (failed s) = [c]
          \<and> (\<forall>entry\<in>set (high_eue_periods s). fst (fst entry) = c
                \<and> set (snd entry) \<subseteq> set (sorted_candidates env c))
          \<and> (\<forall>entry\<in>set (shoulder_periods s). fst (fst entry) = c)
          \<and> (\<forall>np\<in>set new. np_criterion np = c
               \<and> (\<exists>row\<in>set (sorted_candidates env c). np_r np = period_r row
                    \<and> (np_actual_period np, np_y np, np_m np, np_d np)
                         \<in> {(actual_period row, period_y row, period_m row, period_d row),
                            day_after env row, day_before env row}))
          \<and> (\<forall>np\<in>set new. \<exists>selected\<in>set (high_eue_periods s).
                 np \<in> set (high_rows selected)
               \<or> (\<exists>row\<in>set (snd selected).
                     np = shoulder_after env c row \<or> np = shoulder_before env c row)))"
proof (intro conjI allI impI)
  fix thr' post'
  assume split': "split_on CHR ''/'' thr' = pre @ c # post'"
  have a: "criteria_loop env sw neue (pre @ c # post') no_selection
      = criteria_loop env sw neue (pre @ [c]) no_selection"
    by (rule criteria_loop_first_failure [OF assms(5,6)])
  have b: "criteria_loop env sw neue (pre @ c # post) no_selection
      = criteria_loop env sw neue (pre @ [c]) no_selection"
    by (rule criteria_loop_first_failure [OF assms(5,6)])
  have "criteria_loop env sw neue (pre @ c # post') no_selection
      = criteria_loop env sw neue (pre @ c # post) no_selection"
    by (rule trans [OF a b [symmetric]])
  then show "main env (sw\<lparr>GSw_PRM_StressThreshold := thr'\<rparr>) t = main env sw t"
    using assms(1-4) split' by (simp add: main_def criteria_loop_threshold_free)
next
  fix s new
  assume "main env sw t = Inr (Some (s, new))"
  then have run: "criteria_loop env sw neue (pre @ c # post) no_selection = Inr s"
    and new: "new = (if 0 < length (failed s) then new_stress_periods s else [])"
    using assms(1-4) by (auto simp: main_def split: sum.splits)
  obtain s0 where s0: "criteria_loop env sw neue (pre @ [c]) no_selection
        = criteria_loop env sw neue [c] s0"
    and fresh: "failed s0 = []" "high_eue_periods s0 = []" "shoulder_periods s0 = []"
    and t0: "tested (printed s0) = pre"
    using criteria_loop_prefix [OF assms(5), where rest = "[c]" and s = no_selection and sw = sw]
    by (auto simp: no_selection_def)
  have "criteria_loop env sw neue (pre @ c # post) no_selection
      = criteria_loop env sw neue (pre @ [c]) no_selection"
    by (rule criteria_loop_first_failure [OF assms(5,6)])
  then have "criteria_loop env sw neue [c] s0 = Inr s"
    using run s0 by simp
  note p = criteria_loop_single_failure [OF assms(6) this fresh]
  show "tested (printed s) = pre @ [c]" using p t0 by simp
  show "map fst (failed s) = [c]" using p by simp
  show "\<forall>entry\<in>set (high_eue_periods s). fst (fst entry) = c
                \<and> set (snd entry) \<subseteq> set (sorted_candidates env c)" using p by blast
  show "\<forall>entry\<in>set (shoulder_periods s). fst (fst entry) = c" using p by blast
  have sel: "\<exists>selected\<in>set (high_eue_periods s).
                 np \<in> set (high_rows selected)
               \<or> (\<exists>row\<in>set (snd selected).
                     np = shoulder_after env c row \<or> np = shoulder_before env c row)"
    if "np \<in> set new" for np
  proof -
    have "np \<in> set (new_stress_periods s)" using that new by (auto split: if_splits)
    then show ?thesis using new_stress_periods_selected [of s c env np] p by blast
  qed
  show "\<forall>np\<in>set new. np_criterion np = c
               \<and> (\<exists>row\<in>set (sorted_candidates env c). np_r np = period_r row
                    \<and> (np_actual_period np, np_y np, np_m np, np_d np)
                         \<in> {(actual_period row, period_y row, period_m row, period_d row),
                            day_after env row, day_before env row})"
  proof
    fix np assume "np \<in> set new"
    then show "np_criterion np = c
               \<and> (\<exists>row\<in>set (sorted_candidates env c). np_r np = period_r row
                    \<and> (np_actual_period np, np_y np, np_m np, np_d np)
                         \<in> {(actual_period row, period_y row, period_m row, period_d row),
                            day_after env row, day_before env row})"
      using new_stress_periods_origin [of s c "sorted_candidates env c" np env] sel p by blast
  qed
  show "\<forall>np\<in>set new. \<exists>selected\<in>set (high_eue_periods s).
                 np \<in> set (high_rows selected)
               \<or> (\<exists>row\<in>set (snd selected).
                     np = shoulder_after env c row \<or> np = shoulder_before env c row)"
    using sel by blast
qed

lemma example_split:
  "split_on CHR ''/'' (GSw_PRM_StressThreshold example_sw)
     = [''r_1000_EUE_max''] @ ''country_100_EUE_sum'' # [''transreg_10_EUE_sum'']"
  by (simp add: example_sw_def)

lemma example_tests:
  "threshold_test example_env example_neue ''r_1000_EUE_max'' = Inr False"
  "threshold_test example_env example_neue ''country_100_EUE_sum'' = Inr True"
  "threshold_test example_env example_neue ''transreg_10_EUE_sum'' = Inr True"
  by (simp_all add: threshold_test_def parse_criterion_def example_env_def example_neue_def
      example_periods_def)

lemma example_main:
  "main example_env example_sw 2030
   = Inr (Some
       (\<lparr>eue_sorted_periods =
           [(''r_1000_EUE_max'', []),
            (''country_100_EUE_sum'',
             [\<lparr>actual_period = ''y2012d001'', period_y = 2012, period_m = 1,
                 period_d = 1, period_r = ''USA'', period_metric = 80\<rparr>,
              \<lparr>actual_period = ''y2012d200'', period_y = 2012, period_m = 7,
                 period_d = 18, period_r = ''USA'', period_metric = 60\<rparr>,
              \<lparr>actual_period = ''y2012d005'', period_y = 2012, period_m = 1,
                 period_d = 5, period_r = ''USA'', period_metric = 30\<rparr>])],
           failed = [(''country_100_EUE_sum'', [(''USA'', 150)])],
           high_eue_periods =
             [((''country_100_EUE_sum'', ''high_EUE''),
               [\<lparr>actual_period = ''y2012d200'', period_y = 2012,
                   period_m = 7, period_d = 18, period_r = ''USA'',
                   period_metric = 60\<rparr>])],
           shoulder_periods =
             [((''country_100_EUE_sum'', ''after_y2012d200''),
               [\<lparr>np_criterion = ''country_100_EUE_sum'',
                   np_periodtype = ''after_y2012d200'',
                   np_actual_period = ''y2012d201'', np_y = 2012, np_m = 7,
                   np_d = 19, np_r = ''USA''\<rparr>]),
              ((''country_100_EUE_sum'', ''before_y2012d200''),
               [\<lparr>np_criterion = ''country_100_EUE_sum'',
                   np_periodtype = ''before_y2012d200'',
                   np_actual_period = ''y2012d199'', np_y = 2012, np_m = 7,
                   np_d = 17, np_r = ''USA''\<rparr>])],
           printed =
             [Criterion_passed ''r_1000_EUE_max'',
              Criterion_failed ''country_100_EUE_sum'' [(''USA'', 150)],
              Added_stress_period ''y2012d200'' ''USA'' 60,
              Added_shoulder_after ''y2012d200'',
              Added_shoulder_before ''y2012d200'']\<rparr>,
        [\<lparr>np_criterion = ''country_100_EUE_sum'',
            np_periodtype = ''high_EUE'', np_actual_period = ''y2012d200'',
            np_y = 2012, np_m = 7, np_d = 18, np_r = ''USA''\<rparr>,
         \<lparr>np_criterion = ''country_100_EUE_sum'',
            np_periodtype = ''after_y2012d200'',
            np_actual_period = ''y2012d201'', np_y = 2012, np_m = 7,
            np_d = 19, np_r = ''USA''\<rparr>,
         \<lparr>np_criterion = ''country_100_EUE_sum'',
            np_periodtype = ''before_y2012d200'',
            np_actual_period = ''y2012d199'', np_y = 2012, np_m = 7,
            np_d = 17, np_r = ''USA''\<rparr>]))"
  by (simp add: main_def truthy_def example_env_def example_sw_def example_neue_def
      example_periods_def no_selection_def parse_criterion_def criterion_failed_def
      select_high_eue_def add_shoulder_def shoulder_test_def shoulder_row_def
      new_stress_periods_def high_rows_def sort_values_desc_def lower_def Let_def)

theorem first_failing_criterion_wins_witness:
  "annual_neue example_env = Inr example_neue
   \<and> \<not> truthy (GSw_PRM_CapCredit example_sw) \<and> GSw_StartMarkets example_sw \<le> 2030
   \<and> split_on CHR ''/'' (GSw_PRM_StressThreshold example_sw)
       = [''r_1000_EUE_max''] @ ''country_100_EUE_sum'' # [''transreg_10_EUE_sum'']
   \<and> threshold_test example_env example_neue ''r_1000_EUE_max'' = Inr False
   \<and> threshold_test example_env example_neue ''country_100_EUE_sum'' = Inr True
   \<and> threshold_test example_env example_neue ''transreg_10_EUE_sum'' = Inr True
   \<and> main example_env (example_sw\<lparr>GSw_PRM_StressThreshold := ''r_1000_EUE_max/country_100_EUE_sum''\<rparr>) 2030
       = main example_env example_sw 2030
   \<and> (\<exists>s new. main example_env example_sw 2030 = Inr (Some (s, new))
         \<and> tested (printed s) = [''r_1000_EUE_max'', ''country_100_EUE_sum'']
         \<and> map fst (failed s) = [''country_100_EUE_sum'']
         \<and> map np_criterion new
             = [''country_100_EUE_sum'', ''country_100_EUE_sum'', ''country_100_EUE_sum''])"
proof -
  have h1: "annual_neue example_env = Inr example_neue" by (simp add: example_env_def)
  have h2: "\<not> truthy (GSw_PRM_CapCredit example_sw)" by (simp add: example_sw_def truthy_def)
  have h3: "GSw_StartMarkets example_sw \<le> 2030" by (simp add: example_sw_def)
  have h5: "\<forall>p\<in>set [''r_1000_EUE_max'']. threshold_test example_env example_neue p = Inr False"
    using example_tests(1) by simp
  note T = first_failing_criterion_wins [OF h1 h2 h3 example_split h5 example_tests(2)]
  have "split_on CHR ''/'' ''r_1000_EUE_max/country_100_EUE_sum''
          = [''r_1000_EUE_max''] @ ''country_100_EUE_sum'' # []"
    by simp
  then have eq: "main example_env (example_sw\<lparr>GSw_PRM_StressThreshold := ''r_1000_EUE_max/country_100_EUE_sum''\<rparr>) 2030
       = main example_env example_sw 2030"
    using T by blast
  obtain s new where run: "main example_env example_sw 2030 = Inr (Some (s, new))"
    and new: "map np_criterion new
             = [''country_100_EUE_sum'', ''country_100_EUE_sum'', ''country_100_EUE_sum'']"
    using example_main by simp
  have "tested (printed s) = [''r_1000_EUE_max''] @ [''country_100_EUE_sum'']"
    and "map fst (failed s) = [''country_100_EUE_sum'']"
    using T run by blast+
  then show ?thesis using h1 h2 h3 example_split example_tests eq run new by simp
qed

text \<open>
  The new stress periods need not be candidate periods of the first failing criterion. In the
  example run the second criterion is the first to fail and the third would fail too; the
  new periods are the selected period y2012d200 and its two shoulder periods. Neither
  shoulder period is a candidate period of the second criterion, and y2012d201 is the
  candidate period of the third.
\<close>

theorem new_periods_beyond_candidates:
  "threshold_test example_env example_neue ''r_1000_EUE_max'' = Inr False
   \<and> threshold_test example_env example_neue ''country_100_EUE_sum'' = Inr True
   \<and> threshold_test example_env example_neue ''transreg_10_EUE_sum'' = Inr True
   \<and> map_sum id (map_option (map np_actual_period \<circ> snd)) (main example_env example_sw 2030)
       = Inr (Some [''y2012d200'', ''y2012d201'', ''y2012d199''])
   \<and> map actual_period (sorted_candidates example_env ''country_100_EUE_sum'')
       = [''y2012d001'', ''y2012d200'', ''y2012d005'']
   \<and> map actual_period (sorted_candidates example_env ''transreg_10_EUE_sum'') = [''y2012d201'']
   \<and> ''y2012d201'' \<notin> set (map actual_period (sorted_candidates example_env ''country_100_EUE_sum''))
   \<and> ''y2012d199'' \<notin> set (map actual_period (sorted_candidates example_env ''country_100_EUE_sum''))"
proof -
  have new: "map_sum id (map_option (map np_actual_period \<circ> snd)) (main example_env example_sw 2030)
       = Inr (Some [''y2012d200'', ''y2012d201'', ''y2012d199''])"
    by (simp add: example_main)
  have c: "map actual_period (sorted_candidates example_env ''country_100_EUE_sum'')
       = [''y2012d001'', ''y2012d200'', ''y2012d005'']"
    by (simp add: sorted_candidates_def parse_criterion_def example_env_def example_periods_def
        sort_values_desc_def)
  have t: "map actual_period (sorted_candidates example_env ''transreg_10_EUE_sum'') = [''y2012d201'']"
    by (simp add: sorted_candidates_def parse_criterion_def example_env_def example_periods_def
        sort_values_desc_def)
  have "''y2012d201'' \<notin> set (map actual_period (sorted_candidates example_env ''country_100_EUE_sum''))"
    and "''y2012d199'' \<notin> set (map actual_period (sorted_candidates example_env ''country_100_EUE_sum''))"
    unfolding c by simp_all
  then show ?thesis using example_tests new c t by simp
qed

end
